theory Spec2Isabelle
  imports Main "HOL-Library.AList"
begin

section \<open>Python values\<close>

text \<open>
  The chat route of the backend (\<^verbatim>\<open>backend/routes/chat.py\<close>) works on JSON data: the
  classifier's answer is the result of \<^verbatim>\<open>json.loads\<close>, the email context of a request is
  a list of dictionaries, and the emails read from the mailbox are dictionaries built by
  \<^verbatim>\<open>GmailService._parse_message\<close>. A dictionary is an association list in insertion
  order, looked up with \<open>map_of\<close>. A string is a list of characters, each standing for one
  code point below 256; case mapping, white space, digits and word characters follow
  Python's tables for those code points. JSON numbers are integers here.
\<close>

datatype json =
    JNull
  | JBool bool
  | JNum int
  | JStr string
  | JArr "json list"
  | JObj "(string \<times> json) list"

type_synonym pydict = "(string \<times> json) list"

datatype exn =
    KeyError string
  | AttributeError
  | ValueError
  | TypeError
  | HttpError

text \<open>Truth value of an object, as used by \<^verbatim>\<open>if x\<close>, \<^verbatim>\<open>not x\<close>, \<^verbatim>\<open>x and y\<close>, \<^verbatim>\<open>x or y\<close>.\<close>

fun truthy :: "json \<Rightarrow> bool" where
  "truthy JNull = False"
| "truthy (JBool b) = b"
| "truthy (JNum n) = (n \<noteq> 0)"
| "truthy (JStr s) = (s \<noteq> [])"
| "truthy (JArr xs) = (xs \<noteq> [])"
| "truthy (JObj d) = (d \<noteq> [])"

text \<open>\<^verbatim>\<open>d.get(k, default)\<close> and \<^verbatim>\<open>d[k]\<close> on a dictionary.\<close>

definition dict_get :: "pydict \<Rightarrow> string \<Rightarrow> json \<Rightarrow> json" where
  "dict_get d k dflt = (case map_of d k of None \<Rightarrow> dflt | Some v \<Rightarrow> v)"

definition dict_item :: "pydict \<Rightarrow> string \<Rightarrow> exn + json" where
  "dict_item d k = (case map_of d k of None \<Rightarrow> Inl (KeyError k) | Some v \<Rightarrow> Inr v)"

subsection \<open>Strings\<close>

definition lower_char :: "char \<Rightarrow> char" where
  "lower_char c =
     (let n = (of_char c :: nat) in
        if (65 \<le> n \<and> n \<le> 90) \<or> (192 \<le> n \<and> n \<le> 222 \<and> n \<noteq> 215)
        then (case c of Char b0 b1 b2 b3 b4 b5 b6 b7 \<Rightarrow> Char b0 b1 b2 b3 b4 True b6 b7)
        else c)"

definition str_lower :: "string \<Rightarrow> string" where
  "str_lower s = map lower_char s"

definition is_space_char :: "char \<Rightarrow> bool" where
  "is_space_char c =
     (let n = (of_char c :: nat) in
        (9 \<le> n \<and> n \<le> 13) \<or> (28 \<le> n \<and> n \<le> 32) \<or> n = 133 \<or> n = 160)"

definition str_strip :: "string \<Rightarrow> string" where
  "str_strip s = rev (dropWhile is_space_char (rev (dropWhile is_space_char s)))"

definition is_decimal_char :: "char \<Rightarrow> bool" where
  "is_decimal_char c = (let n = (of_char c :: nat) in 48 \<le> n \<and> n \<le> 57)"

definition is_digit_char :: "char \<Rightarrow> bool" where
  "is_digit_char c =
     (let n = (of_char c :: nat) in (48 \<le> n \<and> n \<le> 57) \<or> n = 178 \<or> n = 179 \<or> n = 185)"

text \<open>\<^verbatim>\<open>s.isdigit()\<close>: a non-empty string of digit characters (the superscripts count).\<close>

definition str_isdigit :: "string \<Rightarrow> bool" where
  "str_isdigit s = (s \<noteq> [] \<and> list_all is_digit_char s)"

text \<open>
  \<^verbatim>\<open>int(s)\<close> for the strings that reach it in the chat route, that is after
  \<^verbatim>\<open>s.isdigit()\<close>: decimal digits give their value, a superscript digit raises
  \<^verbatim>\<open>ValueError\<close>, and so does a string of more than 4300 digits.
\<close>

definition digit_value :: "char \<Rightarrow> int" where
  "digit_value c = int (of_char c) - 48"

definition str_int :: "string \<Rightarrow> exn + int" where
  "str_int s =
     (if s \<noteq> [] \<and> list_all is_decimal_char s \<and> length s \<le> 4300
      then Inr (foldl (\<lambda>acc c. 10 * acc + digit_value c) 0 s)
      else Inl ValueError)"

text \<open>\<^verbatim>\<open>needle in hay\<close> on two strings.\<close>

fun str_contains :: "string \<Rightarrow> string \<Rightarrow> bool" where
  "str_contains needle [] = (needle = [])"
| "str_contains needle (c # cs) =
     (take (length needle) (c # cs) = needle \<or> str_contains needle cs)"

text \<open>The methods \<^verbatim>\<open>lower\<close> and \<^verbatim>\<open>isdigit\<close> exist on strings only.\<close>

definition py_lower :: "json \<Rightarrow> exn + string" where
  "py_lower x = (case x of JStr s \<Rightarrow> Inr (str_lower s) | _ \<Rightarrow> Inl AttributeError)"

definition py_isdigit :: "json \<Rightarrow> exn + bool" where
  "py_isdigit x = (case x of JStr s \<Rightarrow> Inr (str_isdigit s) | _ \<Rightarrow> Inl AttributeError)"

definition py_int :: "json \<Rightarrow> exn + int" where
  "py_int x = (case x of JStr s \<Rightarrow> str_int s | _ \<Rightarrow> Inl TypeError)"

subsection \<open>Whole-word search\<close>

text \<open>
  \<^verbatim>\<open>re.search(rf"\b{re.escape(keyword)}\b", user_message)\<close>: the escaped keyword is matched
  literally, and \<^verbatim>\<open>\b\<close> holds at a position where exactly one of the two neighbouring
  characters is a word character (a missing neighbour counts as none).
\<close>

definition is_word_char :: "char \<Rightarrow> bool" where
  "is_word_char c =
     (let n = (of_char c :: nat) in
        (48 \<le> n \<and> n \<le> 57) \<or> (65 \<le> n \<and> n \<le> 90) \<or> n = 95 \<or> (97 \<le> n \<and> n \<le> 122)
        \<or> n = 170 \<or> n = 178 \<or> n = 179 \<or> n = 181 \<or> n = 185 \<or> n = 186
        \<or> n = 188 \<or> n = 189 \<or> n = 190
        \<or> (192 \<le> n \<and> n \<le> 214) \<or> (216 \<le> n \<and> n \<le> 246) \<or> 248 \<le> n)"

definition word_before :: "string \<Rightarrow> nat \<Rightarrow> bool" where
  "word_before s i = (0 < i \<and> i \<le> length s \<and> is_word_char (s ! (i - 1)))"

definition word_after :: "string \<Rightarrow> nat \<Rightarrow> bool" where
  "word_after s i = (i < length s \<and> is_word_char (s ! i))"

definition word_boundary :: "string \<Rightarrow> nat \<Rightarrow> bool" where
  "word_boundary s i = (word_before s i \<noteq> word_after s i)"

definition match_at :: "string \<Rightarrow> string \<Rightarrow> nat \<Rightarrow> bool" where
  "match_at keyword s i =
     (word_boundary s i \<and> take (length keyword) (drop i s) = keyword
      \<and> length keyword \<le> length s - i
      \<and> word_boundary s (i + length keyword))"

definition re_search :: "string \<Rightarrow> string \<Rightarrow> bool" where
  "re_search keyword s = list_ex (match_at keyword s) [0..<Suc (length s)]"

fun has_keyword :: "string \<Rightarrow> string list \<Rightarrow> bool" where
  "has_keyword user_message [] = False"
| "has_keyword user_message (keyword # keywords) =
     (if re_search keyword user_message then True else has_keyword user_message keywords)"

section \<open>The outside world\<close>

text \<open>
  The language model and the mail provider are outside the program. A request to the
  model carries the values that the prompt is built from. Every call to the outside is
  appended to a log, and the answer to a call may depend on its position in that log, so
  two calls with the same arguments can be answered differently. \<^verbatim>\<open>json.loads\<close> is a
  field of the world as well. A completion is \<open>Raised\<close> when the request, or the reading
  of the first choice of its response, raises; otherwise it is the content of that choice,
  which may be missing. A request to the provider either returns or raises
  \<^verbatim>\<open>HttpError\<close>.
\<close>

datatype completion =
    Raised string
  | Content "string option"

datatype llm_request =
    CommandPrompt string "(json \<times> json) list option"
  | SummaryPrompt json json json
  | ReplyPrompt json json json json
  | DigestPrompt "(json \<times> json \<times> json) list"

datatype 'a api = HttpFailure | Returned 'a

datatype query = InInbox | FromSender json | SubjectHas json

datatype gmail_request =
    MessagesList nat query
  | MessagesGet string
  | MessagesDelete json

datatype call = ModelCall llm_request | MailCall gmail_request

text \<open>
  What \<^verbatim>\<open>_parse_message\<close> reads from a message of the provider: the identifiers, the
  \<^verbatim>\<open>From\<close> header split by \<^verbatim>\<open>parseaddr\<close>, the other headers when present, and the
  decoded body.
\<close>

record gmail_message =
  msg_id :: string
  thread_id :: "string option"
  from_name :: string
  from_addr :: string
  subject_header :: "string option"
  date_header :: "string option"
  body_text :: string
  snippet :: "string option"
  label_ids :: "string list option"

record world =
  llm :: "nat \<Rightarrow> llm_request \<Rightarrow> completion"
  json_loads :: "string \<Rightarrow> string + json"
  messages_list :: "nat \<Rightarrow> nat \<Rightarrow> query \<Rightarrow> string list api"
  messages_get :: "nat \<Rightarrow> string \<Rightarrow> gmail_message api"
  messages_delete :: "nat \<Rightarrow> json \<Rightarrow> unit api"
  session_valid :: "string \<Rightarrow> bool"

section \<open>The intent classifier\<close>

text \<open>
  \<^verbatim>\<open>AIService.process_natural_language_command\<close>. The body of its \<^verbatim>\<open>try\<close> block
  either returns the parsed dictionary or raises; \<open>Inl\<close> carries the text of the
  exception. The listing of the context names the sender and the subject of the first
  five emails.
\<close>

definition context_listing :: "pydict list \<Rightarrow> (json \<times> json) list option" where
  "context_listing email_context =
     (if email_context = [] then None
      else Some (map (\<lambda>email. (dict_get email ''sender_email'' (JStr ''unknown''),
                                dict_get email ''subject'' (JStr '''')))
                     (take 5 email_context)))"

fun type_name :: "json \<Rightarrow> string" where
  "type_name JNull = ''NoneType''"
| "type_name (JBool b) = ''bool''"
| "type_name (JNum n) = ''int''"
| "type_name (JStr s) = ''str''"
| "type_name (JArr xs) = ''list''"
| "type_name (JObj d) = ''dict''"

definition no_attribute :: "json \<Rightarrow> string \<Rightarrow> string" where
  "no_attribute x name =
     [CHR 0x27] @ type_name x @ [CHR 0x27] @ '' object has no attribute '' @
     [CHR 0x27] @ name @ [CHR 0x27]"

definition command_try ::
    "world \<Rightarrow> call list \<Rightarrow> string \<Rightarrow> pydict list \<Rightarrow> string + pydict" where
  "command_try w log command email_context =
     (case llm w (length log) (CommandPrompt command (context_listing email_context)) of
        Raised e \<Rightarrow> Inl e
      | Content None \<Rightarrow> Inl ''No content returned from AI when processing command''
      | Content (Some content) \<Rightarrow>
          (case json_loads w content of
             Inl e \<Rightarrow> Inl e
           | Inr result \<Rightarrow>
               (case result of
                  JObj d \<Rightarrow> Inr d
                | _ \<Rightarrow> Inl (no_attribute result ''get''))))"

definition unknown_command :: "string \<Rightarrow> pydict" where
  "unknown_command e =
     [(''intent'', JStr ''unknown''), (''parameters'', JObj []),
      (''confidence'', JStr ''low''), (''error'', JStr e)]"

definition process_natural_language_command ::
    "world \<Rightarrow> call list \<Rightarrow> string \<Rightarrow> pydict list \<Rightarrow> pydict \<times> call list" where
  "process_natural_language_command w log command email_context =
     (case command_try w log command email_context of
        Inl e \<Rightarrow> unknown_command e
      | Inr result \<Rightarrow> result,
      log @ [ModelCall (CommandPrompt command (context_listing email_context))])"

section \<open>The mailbox client\<close>

text \<open>\<^verbatim>\<open>GmailService._parse_message\<close>: the dictionary of an email, with its nine keys.\<close>

definition parse_message :: "gmail_message \<Rightarrow> pydict" where
  "parse_message m =
     [(''id'', JStr (msg_id m)),
      (''thread_id'', (case thread_id m of None \<Rightarrow> JNull | Some t \<Rightarrow> JStr t)),
      (''sender_name'', JStr (if from_name m \<noteq> [] then from_name m else from_addr m)),
      (''sender_email'', JStr (from_addr m)),
      (''subject'', JStr (case subject_header m of None \<Rightarrow> ''(No subject)'' | Some s \<Rightarrow> s)),
      (''body'', JStr (body_text m)),
      (''date'', JStr (case date_header m of None \<Rightarrow> [] | Some d \<Rightarrow> d)),
      (''snippet'', JStr (case snippet m of None \<Rightarrow> [] | Some s \<Rightarrow> s)),
      (''labels'', JArr (case label_ids m of None \<Rightarrow> [] | Some ls \<Rightarrow> map JStr ls))]"

text \<open>
  \<^verbatim>\<open>GmailService.get_recent_emails\<close>: a failing list request is raised again; a message
  whose fetch fails is skipped.
\<close>

fun fetch_messages :: "world \<Rightarrow> call list \<Rightarrow> string list \<Rightarrow> pydict list \<times> call list" where
  "fetch_messages w log [] = ([], log)"
| "fetch_messages w log (i # ids) =
     (case messages_get w (length log) i of
        HttpFailure \<Rightarrow> fetch_messages w (log @ [MailCall (MessagesGet i)]) ids
      | Returned m \<Rightarrow>
          (case fetch_messages w (log @ [MailCall (MessagesGet i)]) ids of
             (email_list, log') \<Rightarrow> (parse_message m # email_list, log')))"

definition get_recent_emails ::
    "world \<Rightarrow> call list \<Rightarrow> nat \<Rightarrow> (exn + pydict list) \<times> call list" where
  "get_recent_emails w log max_results =
     (case messages_list w (length log) max_results InInbox of
        HttpFailure \<Rightarrow> (Inl HttpError, log @ [MailCall (MessagesList max_results InInbox)])
      | Returned messages \<Rightarrow>
          (case fetch_messages w (log @ [MailCall (MessagesList max_results InInbox)]) messages of
             (email_list, log') \<Rightarrow> (Inr email_list, log')))"

text \<open>\<^verbatim>\<open>GmailService.delete_email\<close>, the destructive operation of the provider.\<close>

definition delete_email :: "world \<Rightarrow> call list \<Rightarrow> json \<Rightarrow> (exn + bool) \<times> call list" where
  "delete_email w log message_id =
     (case messages_delete w (length log) message_id of
        HttpFailure \<Rightarrow> (Inl HttpError, log @ [MailCall (MessagesDelete message_id)])
      | Returned u \<Rightarrow> (Inr True, log @ [MailCall (MessagesDelete message_id)]))"

text \<open>
  \<^verbatim>\<open>GmailService.find_email_by_sender\<close> and \<^verbatim>\<open>find_email_by_subject\<close>, with the default
  \<^verbatim>\<open>limit=1\<close>: an \<^verbatim>\<open>HttpError\<close> of either request is logged and answered with
  \<^verbatim>\<open>None\<close>.
\<close>

definition find_email_by_sender ::
    "world \<Rightarrow> call list \<Rightarrow> json \<Rightarrow> pydict option \<times> call list" where
  "find_email_by_sender w log sender_email =
     (case messages_list w (length log) 1 (FromSender sender_email) of
        HttpFailure \<Rightarrow> (None, log @ [MailCall (MessagesList 1 (FromSender sender_email))])
      | Returned messages \<Rightarrow>
          (case messages of
             [] \<Rightarrow> (None, log @ [MailCall (MessagesList 1 (FromSender sender_email))])
           | i # rest \<Rightarrow>
               (case messages_get w (Suc (length log)) i of
                  HttpFailure \<Rightarrow>
                    (None, log @ [MailCall (MessagesList 1 (FromSender sender_email)),
                                  MailCall (MessagesGet i)])
                | Returned m \<Rightarrow>
                    (Some (parse_message m),
                     log @ [MailCall (MessagesList 1 (FromSender sender_email)),
                            MailCall (MessagesGet i)]))))"

definition find_email_by_subject ::
    "world \<Rightarrow> call list \<Rightarrow> json \<Rightarrow> pydict option \<times> call list" where
  "find_email_by_subject w log subject_keyword =
     (case messages_list w (length log) 1 (SubjectHas subject_keyword) of
        HttpFailure \<Rightarrow> (None, log @ [MailCall (MessagesList 1 (SubjectHas subject_keyword))])
      | Returned messages \<Rightarrow>
          (case messages of
             [] \<Rightarrow> (None, log @ [MailCall (MessagesList 1 (SubjectHas subject_keyword))])
           | i # rest \<Rightarrow>
               (case messages_get w (Suc (length log)) i of
                  HttpFailure \<Rightarrow>
                    (None, log @ [MailCall (MessagesList 1 (SubjectHas subject_keyword)),
                                  MailCall (MessagesGet i)])
                | Returned m \<Rightarrow>
                    (Some (parse_message m),
                     log @ [MailCall (MessagesList 1 (SubjectHas subject_keyword)),
                            MailCall (MessagesGet i)]))))"

section \<open>The language model client\<close>

text \<open>
  \<^verbatim>\<open>x[:2000]\<close>: strings and lists can be sliced, the other values raise
  \<^verbatim>\<open>TypeError\<close>.
\<close>

definition slice_2000 :: "json \<Rightarrow> exn + json" where
  "slice_2000 x =
     (case x of
        JStr s \<Rightarrow> Inr (JStr (take 2000 s))
      | JArr xs \<Rightarrow> Inr (JArr (take 2000 xs))
      | _ \<Rightarrow> Inl TypeError)"

text \<open>\<^verbatim>\<open>(response.choices[0].message.content or "").strip()\<close>\<close>

definition content_text :: "string option \<Rightarrow> string" where
  "content_text c = str_strip (case c of None \<Rightarrow> [] | Some s \<Rightarrow> s)"

text \<open>
  \<^verbatim>\<open>AIService.generate_summary\<close>, \<^verbatim>\<open>generate_reply\<close> and \<^verbatim>\<open>generate_daily_digest\<close>
  catch every exception of their body and return a fixed sentence instead.
\<close>

definition generate_summary ::
    "world \<Rightarrow> call list \<Rightarrow> json \<Rightarrow> json \<Rightarrow> json \<Rightarrow> string \<times> call list" where
  "generate_summary w log email_body subject sender =
     (case slice_2000 email_body of
        Inl e \<Rightarrow> (''Unable to generate summary at this time.'', log)
      | Inr excerpt \<Rightarrow>
          (case llm w (length log) (SummaryPrompt excerpt subject sender) of
             Raised e \<Rightarrow>
               (''Unable to generate summary at this time.'',
                log @ [ModelCall (SummaryPrompt excerpt subject sender)])
           | Content c \<Rightarrow>
               (content_text c, log @ [ModelCall (SummaryPrompt excerpt subject sender)])))"

definition reply_apology :: string where
  "reply_apology =
     ''I apologize, but I'm having trouble generating a reply right now. Please try again later.''"

definition generate_reply ::
    "world \<Rightarrow> call list \<Rightarrow> pydict \<Rightarrow> json \<Rightarrow> string \<times> call list" where
  "generate_reply w log original_email user_context =
     (let sender = dict_get original_email ''sender_name''
                     (dict_get original_email ''sender_email'' (JStr ''Unknown''));
          subject = dict_get original_email ''subject'' (JStr [])
      in case slice_2000 (dict_get original_email ''body'' (JStr [])) of
           Inl e \<Rightarrow> (reply_apology, log)
         | Inr body \<Rightarrow>
             (case llm w (length log) (ReplyPrompt sender subject body user_context) of
                Raised e \<Rightarrow>
                  (reply_apology, log @ [ModelCall (ReplyPrompt sender subject body user_context)])
              | Content c \<Rightarrow>
                  (content_text c,
                   log @ [ModelCall (ReplyPrompt sender subject body user_context)])))"

definition digest_listing :: "pydict list \<Rightarrow> (json \<times> json \<times> json) list" where
  "digest_listing emails =
     map (\<lambda>email. (dict_get email ''sender_email'' (JStr ''unknown''),
                   dict_get email ''subject'' (JStr []),
                   dict_get email ''snippet'' (JStr []))) emails"

definition generate_daily_digest ::
    "world \<Rightarrow> call list \<Rightarrow> pydict list \<Rightarrow> string \<times> call list" where
  "generate_daily_digest w log emails =
     (case llm w (length log) (DigestPrompt (digest_listing emails)) of
        Raised e \<Rightarrow>
          (''Unable to generate digest at this time.'',
           log @ [ModelCall (DigestPrompt (digest_listing emails))])
      | Content c \<Rightarrow>
          (content_text c, log @ [ModelCall (DigestPrompt (digest_listing emails))]))"

section \<open>The chat route\<close>

text \<open>
  A message of the response is kept as the pieces of its format string: the literal
  text, the values shown in it, and single characters given by their code point where
  the literal of the source has one above 255.
\<close>

datatype piece = Lit string | Shown json | Number nat | Code nat

record chat_request =
  request_message :: string
  email_context :: "pydict list option"

record response =
  intent :: json
  confidence :: json
  message :: "piece list"
  action :: "string option"
  data :: json

datatype http_exception = HTTPException nat "exn option"

datatype branch = ReadBranch | ReplyBranch | DeleteBranch | DigestBranch | InfoBranch

text \<open>The conditions of the \<^verbatim>\<open>if\<close>/\<^verbatim>\<open>elif\<close> chain, in the order of the source.\<close>

definition choose_branch :: "json \<Rightarrow> string \<Rightarrow> branch" where
  "choose_branch intent_value user_message =
     (if intent_value = JStr ''read'' \<or> has_keyword user_message [''read'', ''show'', ''fetch'']
      then ReadBranch
      else if intent_value = JStr ''reply'' \<or> has_keyword user_message [''reply'', ''respond'']
      then ReplyBranch
      else if intent_value = JStr ''delete'' \<or> has_keyword user_message [''delete'', ''remove'']
      then DeleteBranch
      else if intent_value = JStr ''digest'' \<or> has_keyword user_message [''digest'', ''summary'']
      then DigestBranch
      else InfoBranch)"

subsection \<open>Reading\<close>

definition read_max_results :: "string \<Rightarrow> nat" where
  "read_max_results user_message =
     (if str_contains ''few'' user_message \<or> str_contains ''some'' user_message then 5
      else if str_contains ''many'' user_message \<or> str_contains ''all'' user_message
              \<or> str_contains ''20'' user_message then 20
      else 5)"

text \<open>
  One round of the summary loop. A missing key raises inside the \<^verbatim>\<open>try\<close> of the route
  and gives the route's own placeholder; \<^verbatim>\<open>generate_summary\<close> itself never raises.
\<close>

definition summarize_email :: "world \<Rightarrow> call list \<Rightarrow> pydict \<Rightarrow> pydict \<times> call list" where
  "summarize_email w log email =
     (case dict_item email ''body'' of
        Inl e \<Rightarrow> (AList.update ''ai_summary'' (JStr ''Unable to generate summary.'') email, log)
      | Inr email_body \<Rightarrow>
     (case dict_item email ''subject'' of
        Inl e \<Rightarrow> (AList.update ''ai_summary'' (JStr ''Unable to generate summary.'') email, log)
      | Inr subject \<Rightarrow>
     (case dict_item email ''sender_name'' of
        Inl e \<Rightarrow> (AList.update ''ai_summary'' (JStr ''Unable to generate summary.'') email, log)
      | Inr sender \<Rightarrow>
          (case generate_summary w log email_body subject sender of
             (summary, log') \<Rightarrow> (AList.update ''ai_summary'' (JStr summary) email, log')))))"

fun summarize_all :: "world \<Rightarrow> call list \<Rightarrow> pydict list \<Rightarrow> pydict list \<times> call list" where
  "summarize_all w log [] = ([], log)"
| "summarize_all w log (email # emails) =
     (case summarize_email w log email of
        (email', log') \<Rightarrow>
          (case summarize_all w log' emails of
             (emails', log'') \<Rightarrow> (email' # emails', log'')))"

definition read_branch ::
    "world \<Rightarrow> call list \<Rightarrow> response \<Rightarrow> string \<Rightarrow> (exn + response) \<times> call list" where
  "read_branch w log response_data user_message =
     (case get_recent_emails w log (read_max_results user_message) of
        (Inl e, log1) \<Rightarrow> (Inl e, log1)
      | (Inr fetched, log1) \<Rightarrow>
          (case summarize_all w log1 fetched of
             (emails, log2) \<Rightarrow>
               (Inr (response_data
                      \<lparr> message := [Lit ''I found '', Number (length emails),
                                     Lit '' recent emails. Here they are:''],
                        action := Some ''display_emails'',
                        data := JObj [(''emails'', JArr (map JObj emails))] \<rparr>),
                log2)))"

subsection \<open>Resolving the target email\<close>

text \<open>\<^verbatim>\<open>email_index and email_index.isdigit()\<close>\<close>

definition index_given :: "json \<Rightarrow> exn + bool" where
  "index_given email_index =
     (if truthy email_index then py_isdigit email_index else Inr False)"

text \<open>\<^verbatim>\<open>idx = int(email_index) - 1\<close>, then the range test and the selection.\<close>

definition select_by_index :: "json \<Rightarrow> pydict list \<Rightarrow> exn + pydict option" where
  "select_by_index email_index context =
     (case py_int email_index of
        Inl e \<Rightarrow> Inl e
      | Inr k \<Rightarrow>
          (if 0 \<le> k - 1 \<and> k - 1 < int (length context)
           then Inr (Some (context ! nat (k - 1)))
           else Inr None))"

text \<open>
  The loop \<^verbatim>\<open>for email in email_context: if needle.lower() in email.get(key, '').lower()\<close>
  with its \<^verbatim>\<open>break\<close>.
\<close>

fun scan_context :: "string \<Rightarrow> json \<Rightarrow> pydict list \<Rightarrow> exn + pydict option" where
  "scan_context key needle [] = Inr None"
| "scan_context key needle (email # rest) =
     (case py_lower needle of
        Inl e \<Rightarrow> Inl e
      | Inr n \<Rightarrow>
          (case py_lower (dict_get email key (JStr [])) of
             Inl e \<Rightarrow> Inl e
           | Inr hay \<Rightarrow>
               if str_contains n hay then Inr (Some email) else scan_context key needle rest))"

text \<open>The truth value of \<^verbatim>\<open>target_email\<close>, which is \<^verbatim>\<open>None\<close> or a dictionary.\<close>

definition found :: "pydict option \<Rightarrow> bool" where
  "found target_email = (case target_email of None \<Rightarrow> False | Some d \<Rightarrow> d \<noteq> [])"

text \<open>Lines 103 to 115 of the route: the search of the reply branch in the context.\<close>

definition reply_context_target :: "json \<Rightarrow> json \<Rightarrow> pydict list \<Rightarrow> exn + pydict option" where
  "reply_context_target email_index sender_email context =
     (if context \<noteq> [] then
        (case index_given email_index of
           Inl e \<Rightarrow> Inl e
         | Inr True \<Rightarrow> select_by_index email_index context
         | Inr False \<Rightarrow>
             if truthy sender_email then scan_context ''sender_email'' sender_email context
             else Inr None)
      else Inr None)"

text \<open>Lines 103 to 119: the context first, then the provider.\<close>

definition reply_target ::
    "world \<Rightarrow> call list \<Rightarrow> json \<Rightarrow> json \<Rightarrow> pydict list \<Rightarrow> (exn + pydict option) \<times> call list" where
  "reply_target w log email_index sender_email context =
     (case reply_context_target email_index sender_email context of
        Inl e \<Rightarrow> (Inl e, log)
      | Inr target_email \<Rightarrow>
          if \<not> found target_email \<and> truthy sender_email
          then (case find_email_by_sender w log sender_email of
                  (t, log') \<Rightarrow> (Inr t, log'))
          else (Inr target_email, log))"

text \<open>Lines 145 to 162: the search of the delete branch in the context.\<close>

definition delete_context_target ::
    "json \<Rightarrow> json \<Rightarrow> json \<Rightarrow> pydict list \<Rightarrow> exn + pydict option" where
  "delete_context_target email_index sender_email subject_keyword context =
     (if context \<noteq> [] then
        (case index_given email_index of
           Inl e \<Rightarrow> Inl e
         | Inr True \<Rightarrow> select_by_index email_index context
         | Inr False \<Rightarrow>
             if truthy sender_email then scan_context ''sender_email'' sender_email context
             else if truthy subject_keyword
             then scan_context ''subject'' subject_keyword context
             else Inr None)
      else Inr None)"

text \<open>Lines 145 to 169.\<close>

definition delete_target ::
    "world \<Rightarrow> call list \<Rightarrow> json \<Rightarrow> json \<Rightarrow> json \<Rightarrow> pydict list
       \<Rightarrow> (exn + pydict option) \<times> call list" where
  "delete_target w log email_index sender_email subject_keyword context =
     (case delete_context_target email_index sender_email subject_keyword context of
        Inl e \<Rightarrow> (Inl e, log)
      | Inr target_email \<Rightarrow>
          if \<not> found target_email then
            (if truthy sender_email
             then (case find_email_by_sender w log sender_email of
                     (t, log') \<Rightarrow> (Inr t, log'))
             else if truthy subject_keyword
             then (case find_email_by_subject w log subject_keyword of
                     (t, log') \<Rightarrow> (Inr t, log'))
             else (Inr target_email, log))
          else (Inr target_email, log))"

subsection \<open>Replying\<close>

text \<open>The dictionary under \<^verbatim>\<open>"original_email"\<close>: four subscripts and one \<^verbatim>\<open>get\<close>.\<close>

definition original_email_stub :: "pydict \<Rightarrow> exn + pydict" where
  "original_email_stub target_email =
     (case dict_item target_email ''id'' of Inl e \<Rightarrow> Inl e | Inr i \<Rightarrow>
     (case dict_item target_email ''sender_email'' of Inl e \<Rightarrow> Inl e | Inr sender_addr \<Rightarrow>
     (case dict_item target_email ''sender_name'' of Inl e \<Rightarrow> Inl e | Inr sender \<Rightarrow>
     (case dict_item target_email ''subject'' of Inl e \<Rightarrow> Inl e | Inr subject \<Rightarrow>
        Inr [(''id'', i), (''sender_email'', sender_addr), (''sender_name'', sender),
             (''subject'', subject),
             (''thread_id'', dict_get target_email ''thread_id'' JNull)]))))"

definition reply_miss :: "piece list" where
  "reply_miss =
     [Lit ''I couldn't find the email you want to reply to. Please try fetching your recent emails first or be more specific about which email to reply to.'']"

text \<open>
  The three \<^verbatim>\<open>parameters.get(...)\<close> at the head of the branch raise
  \<^verbatim>\<open>AttributeError\<close> when the classifier's \<^verbatim>\<open>parameters\<close> is not a dictionary. The reply is
  drafted before the dictionary of the original email is built.
\<close>

definition reply_branch ::
    "world \<Rightarrow> call list \<Rightarrow> response \<Rightarrow> json \<Rightarrow> pydict list \<Rightarrow> (exn + response) \<times> call list" where
  "reply_branch w log response_data parameters context =
     (case parameters of
        JObj p \<Rightarrow>
          (let sender_email = dict_get p ''sender_email'' (JStr []);
               email_index = dict_get p ''email_index'' (JStr []);
               user_context = dict_get p ''action_details'' (JStr [])
           in case reply_target w log email_index sender_email context of
                (Inl e, log1) \<Rightarrow> (Inl e, log1)
              | (Inr target_email, log1) \<Rightarrow>
                  (case target_email of
                     None \<Rightarrow>
                       (Inr (response_data \<lparr> message := reply_miss, action := Some ''error'' \<rparr>),
                        log1)
                   | Some t \<Rightarrow>
                       if t = [] then
                         (Inr (response_data \<lparr> message := reply_miss, action := Some ''error'' \<rparr>),
                          log1)
                       else
                         (case generate_reply w log1 t user_context of
                            (reply, log2) \<Rightarrow>
                              (case original_email_stub t of
                                 Inl e \<Rightarrow> (Inl e, log2)
                               | Inr stub \<Rightarrow>
                                   (Inr (response_data
                                          \<lparr> message :=
                                              [Lit ''Here's a suggested reply to the email from '',
                                               Shown (dict_get t ''sender_name''
                                                        (JStr ''the sender'')),
                                               Lit '':''],
                                            action := Some ''display_reply'',
                                            data := JObj [(''reply'', JStr reply),
                                                          (''original_email'', JObj stub)] \<rparr>),
                                    log2)))))
      | _ \<Rightarrow> (Inl AttributeError, log))"

subsection \<open>Deleting\<close>

text \<open>The dictionary under \<^verbatim>\<open>"email"\<close> in the confirmation: four subscripts.\<close>

definition candidate_fields :: "pydict \<Rightarrow> exn + pydict" where
  "candidate_fields target_email =
     (case dict_item target_email ''id'' of Inl e \<Rightarrow> Inl e | Inr i \<Rightarrow>
     (case dict_item target_email ''sender_name'' of Inl e \<Rightarrow> Inl e | Inr sender \<Rightarrow>
     (case dict_item target_email ''sender_email'' of Inl e \<Rightarrow> Inl e | Inr sender_addr \<Rightarrow>
     (case dict_item target_email ''subject'' of Inl e \<Rightarrow> Inl e | Inr subject \<Rightarrow>
        Inr [(''id'', i), (''sender_name'', sender), (''sender_email'', sender_addr),
             (''subject'', subject)]))))"

definition delete_miss :: "piece list" where
  "delete_miss =
     [Lit ''I couldn't find the email you want to delete. Please try fetching your recent emails first or be more specific.'']"

definition delete_prompt :: "pydict \<Rightarrow> piece list" where
  "delete_prompt target_email =
     [Lit ''I found the email from '',
      Shown (dict_get target_email ''sender_name'' (JStr ''the sender'')),
      Lit '' with subject ''  , Lit [CHR 0x27],
      Shown (dict_get target_email ''subject'' (JStr [])),
      Lit [CHR 0x27], Lit ''. Are you sure you want to delete it?'']"

text \<open>As in the reply branch, \<^verbatim>\<open>parameters\<close> has to be a dictionary.\<close>

definition delete_branch ::
    "world \<Rightarrow> call list \<Rightarrow> response \<Rightarrow> json \<Rightarrow> pydict list \<Rightarrow> (exn + response) \<times> call list" where
  "delete_branch w log response_data parameters context =
     (case parameters of
        JObj p \<Rightarrow>
          (let sender_email = dict_get p ''sender_email'' (JStr []);
               subject_keyword = dict_get p ''subject_keyword'' (JStr []);
               email_index = dict_get p ''email_index'' (JStr [])
           in case delete_target w log email_index sender_email subject_keyword context of
                (Inl e, log1) \<Rightarrow> (Inl e, log1)
              | (Inr target_email, log1) \<Rightarrow>
                  (case target_email of
                     None \<Rightarrow>
                       (Inr (response_data \<lparr> message := delete_miss, action := Some ''error'' \<rparr>),
                        log1)
                   | Some t \<Rightarrow>
                       if t = [] then
                         (Inr (response_data \<lparr> message := delete_miss, action := Some ''error'' \<rparr>),
                          log1)
                       else
                         (case candidate_fields t of
                            Inl e \<Rightarrow> (Inl e, log1)
                          | Inr shown \<Rightarrow>
                              (Inr (response_data
                                     \<lparr> message := delete_prompt t,
                                       action := Some ''confirm_delete'',
                                       data := JObj [(''email'', JObj shown)] \<rparr>),
                               log1))))
      | _ \<Rightarrow> (Inl AttributeError, log))"

subsection \<open>Digest and fallback\<close>

definition digest_branch ::
    "world \<Rightarrow> call list \<Rightarrow> response \<Rightarrow> (exn + response) \<times> call list" where
  "digest_branch w log response_data =
     (case get_recent_emails w log 20 of
        (Inl e, log1) \<Rightarrow> (Inl e, log1)
      | (Inr emails, log1) \<Rightarrow>
          (case generate_daily_digest w log1 emails of
             (digest, log2) \<Rightarrow>
               (Inr (response_data
                      \<lparr> message := [Lit ''Here's your daily email digest:''],
                        action := Some ''display_digest'',
                        data := JObj [(''digest'', JStr digest),
                                      (''email_count'', JNum (int (length emails)))] \<rparr>),
                log2)))"

definition help_message :: "piece list" where
  \<open>help_message =
     [Lit ''I'm your AI email assistant! I can help you with:'', Lit [CHR 0x0A],
      Lit ''            '', Lit [CHR 0x0A],
      Code 0xE2, Code 0x20AC, Code 0xA2,
      Lit '' **Read emails**: "Show me my recent emails" or "Fetch last 5 emails"'',
      Lit [CHR 0x0A],
      Code 0xE2, Code 0x20AC, Code 0xA2,
      Lit '' **Generate replies**: "Reply to John" or "Generate a reply to the latest email from [sender]"'',
      Lit [CHR 0x0A],
      Code 0xE2, Code 0x20AC, Code 0xA2,
      Lit '' **Delete emails**: "Delete the latest email from [sender]" or "Delete email number 2"'',
      Lit [CHR 0x0A], Lit [CHR 0x0A],
      Lit ''Try asking me to fetch your emails first, and then I can help you reply or delete specific ones!'']\<close>

definition info_branch :: "call list \<Rightarrow> response \<Rightarrow> (exn + response) \<times> call list" where
  "info_branch log response_data =
     (Inr (response_data \<lparr> message := help_message, action := Some ''info'' \<rparr>), log)"

subsection \<open>The route\<close>

text \<open>
  The local variables at the head of \<^verbatim>\<open>process_chat_message\<close>, after the credentials
  have been resolved: the lower-cased, stripped text, the context
  (\<^verbatim>\<open>request.email_context or []\<close>), the classifier's answer, which is the first call
  to the outside, and the three values read from it with their defaults.
\<close>

definition user_message_of :: "chat_request \<Rightarrow> string" where
  "user_message_of request = str_strip (str_lower (request_message request))"

definition context_of :: "chat_request \<Rightarrow> pydict list" where
  "context_of request = (case email_context request of None \<Rightarrow> [] | Some c \<Rightarrow> c)"

definition command_result_of :: "world \<Rightarrow> chat_request \<Rightarrow> pydict" where
  "command_result_of w request =
     fst (process_natural_language_command w [] (request_message request) (context_of request))"

definition first_log :: "world \<Rightarrow> chat_request \<Rightarrow> call list" where
  "first_log w request =
     snd (process_natural_language_command w [] (request_message request) (context_of request))"

definition intent_of :: "world \<Rightarrow> chat_request \<Rightarrow> json" where
  "intent_of w request = dict_get (command_result_of w request) ''intent'' (JStr ''unknown'')"

definition parameters_of :: "world \<Rightarrow> chat_request \<Rightarrow> json" where
  "parameters_of w request = dict_get (command_result_of w request) ''parameters'' (JObj [])"

definition confidence_of :: "world \<Rightarrow> chat_request \<Rightarrow> json" where
  "confidence_of w request = dict_get (command_result_of w request) ''confidence'' (JStr ''low'')"

definition initial_response :: "world \<Rightarrow> chat_request \<Rightarrow> response" where
  "initial_response w request =
     \<lparr> intent = intent_of w request, confidence = confidence_of w request,
       message = [], action = None, data = JNull \<rparr>"

text \<open>The branch that the \<^verbatim>\<open>if\<close>/\<^verbatim>\<open>elif\<close> chain takes for a request.\<close>

definition routed_branch :: "world \<Rightarrow> chat_request \<Rightarrow> branch" where
  "routed_branch w request = choose_branch (intent_of w request) (user_message_of request)"

text \<open>The body of the \<^verbatim>\<open>try\<close> block of \<^verbatim>\<open>process_chat_message\<close>.\<close>

definition chat_try :: "world \<Rightarrow> chat_request \<Rightarrow> (exn + response) \<times> call list" where
  "chat_try w request =
     (case routed_branch w request of
        ReadBranch \<Rightarrow>
          read_branch w (first_log w request) (initial_response w request)
            (user_message_of request)
      | ReplyBranch \<Rightarrow>
          reply_branch w (first_log w request) (initial_response w request)
            (parameters_of w request) (context_of request)
      | DeleteBranch \<Rightarrow>
          delete_branch w (first_log w request) (initial_response w request)
            (parameters_of w request) (context_of request)
      | DigestBranch \<Rightarrow>
          digest_branch w (first_log w request) (initial_response w request)
      | InfoBranch \<Rightarrow> info_branch (first_log w request) (initial_response w request))"

text \<open>
  \<^verbatim>\<open>process_chat_message\<close>: a session that does not resolve to credentials is answered
  with status 401 before anything else happens; any exception of the body becomes
  status 500. The two service objects are taken to be constructed without error.
\<close>

definition process_chat_message ::
    "world \<Rightarrow> string \<Rightarrow> chat_request \<Rightarrow> (http_exception + response) \<times> call list" where
  "process_chat_message w token request =
     (if \<not> session_valid w token then (Inl (HTTPException 401 None), [])
      else case chat_try w request of
             (Inl e, log) \<Rightarrow> (Inl (HTTPException 500 (Some e)), log)
           | (Inr response_data, log) \<Rightarrow> (Inr response_data, log))"

section \<open>Whole words, as the specification puts them\<close>

text \<open>
  The specification speaks of a message that contains a keyword as a whole word: the
  keyword occurs in the text, and neither the character before it nor the character
  after it, if any, is a word character.
\<close>

definition whole_word :: "string \<Rightarrow> string \<Rightarrow> bool" where
  "whole_word keyword s =
     (\<exists>pre post. s = pre @ keyword @ post
        \<and> (pre = [] \<or> \<not> is_word_char (last pre))
        \<and> (post = [] \<or> \<not> is_word_char (hd post)))"

section \<open>Destructive calls\<close>

text \<open>
  The one request that changes the mailbox is the deletion of a message, which
  \<open>delete_email\<close> sends; listing and fetching leave the mailbox as it is, and so do the
  requests to the language model.
\<close>

fun destructive :: "call \<Rightarrow> bool" where
  "destructive (MailCall (MessagesDelete i)) = True"
| "destructive c = False"

definition quiet :: "call list \<Rightarrow> bool" where
  "quiet log = (\<forall>c\<in>set log. \<not> destructive c)"

section \<open>A failing lookup\<close>

text \<open>
  The provider answers a lookup of \<open>find_email_by_sender\<close> or \<open>find_email_by_subject\<close>,
  made as the call number \<open>n\<close>, with an \<^verbatim>\<open>HttpError\<close>: at the list request, or at the
  fetch of the first listed message.
\<close>

definition lookup_fails :: "world \<Rightarrow> nat \<Rightarrow> query \<Rightarrow> bool" where
  "lookup_fails w n q =
     (case messages_list w n 1 q of
        HttpFailure \<Rightarrow> True
      | Returned messages \<Rightarrow>
          (case messages of
             [] \<Rightarrow> False
           | i # rest \<Rightarrow>
               (case messages_get w (Suc n) i of HttpFailure \<Rightarrow> True | Returned m \<Rightarrow> False)))"

section \<open>Summaries of a fetched batch\<close>

text \<open>
  The request that \<open>generate_summary\<close> sends for an email whose body is a string, the
  summary that an answer of the model gives, and the emails that \<open>parse_message\<close> builds.
\<close>

definition summary_request :: "pydict \<Rightarrow> llm_request" where
  "summary_request email =
     SummaryPrompt
       (case dict_get email ''body'' JNull of JStr s \<Rightarrow> JStr (take 2000 s) | x \<Rightarrow> x)
       (dict_get email ''subject'' JNull)
       (dict_get email ''sender_name'' JNull)"

definition summary_text :: "completion \<Rightarrow> string" where
  "summary_text c =
     (case c of
        Raised e \<Rightarrow> ''Unable to generate summary at this time.''
      | Content t \<Rightarrow> content_text t)"

definition parsed :: "pydict \<Rightarrow> bool" where
  "parsed email = (\<exists>m. email = parse_message m)"

section \<open>What a message mentions\<close>

text \<open>
  The literal text of a message, with a blank for every piece that is not literal, and
  whether that text contains a phrase when case is ignored.
\<close>

fun lit_text :: "piece \<Rightarrow> string" where
  "lit_text (Lit s) = s"
| "lit_text p = '' ''"

definition mentions :: "string \<Rightarrow> piece list \<Rightarrow> bool" where
  "mentions phrase pieces = str_contains phrase (str_lower (concat (map lit_text pieces)))"

section \<open>Example worlds and requests\<close>

text \<open>A world in which the language model cannot be reached and the inbox is empty.\<close>

definition offline_world :: world where
  "offline_world =
     \<lparr> llm = (\<lambda>n r. Raised ''connection refused''),
       json_loads = (\<lambda>s. Inl ''Expecting value''),
       messages_list = (\<lambda>n k q. Returned []),
       messages_get = (\<lambda>n i. HttpFailure),
       messages_delete = (\<lambda>n i. HttpFailure),
       session_valid = (\<lambda>t. t = ''token'') \<rparr>"

text \<open>Two requests without context: one names a keyword in capitals, one hides it in a word.\<close>

definition shouting_request :: chat_request where
  "shouting_request = \<lparr> request_message = ''  Please READ it. '', email_context = None \<rparr>"

definition thread_request :: chat_request where
  "thread_request = \<lparr> request_message = ''thread'', email_context = None \<rparr>"

text \<open>
  Two messages of the provider, and a world that is scripted: the model answers the
  classification with a fixed text, which \<^verbatim>\<open>json.loads\<close> turns into a fixed value, the
  provider lists what the script says for a query, and knows the two messages by their
  identifiers. The summary of an email from Bob fails.
\<close>

definition alice_message :: gmail_message where
  "alice_message =
     \<lparr> msg_id = ''m1'', thread_id = Some ''t1'', from_name = ''Alice'',
       from_addr = ''alice@x.com'', subject_header = Some ''Invoice 42'',
       date_header = None, body_text = ''Please pay.'', snippet = None, label_ids = None \<rparr>"

definition bob_message :: gmail_message where
  "bob_message =
     \<lparr> msg_id = ''m2'', thread_id = None, from_name = ''Bob'',
       from_addr = ''bob@y.org'', subject_header = None,
       date_header = None, body_text = ''Lunch?'', snippet = None, label_ids = None \<rparr>"

definition scripted_world :: "string \<Rightarrow> json \<Rightarrow> (query \<Rightarrow> string list api) \<Rightarrow> world" where
  "scripted_world text answer listing =
     \<lparr> llm = (\<lambda>n r. case r of
                  CommandPrompt c l \<Rightarrow> Content (Some text)
                | SummaryPrompt b s f \<Rightarrow>
                    if f = JStr ''Bob'' then Raised ''rate limit''
                    else Content (Some '' A short note. '')
                | ReplyPrompt f s b u \<Rightarrow> Content (Some ''Thank you.'')
                | DigestPrompt l \<Rightarrow> Content None),
       json_loads = (\<lambda>s. if s = text then Inr answer else Inl ''Expecting value''),
       messages_list = (\<lambda>n k q. listing q),
       messages_get = (\<lambda>n i. if i = ''m1'' then Returned alice_message
                              else if i = ''m2'' then Returned bob_message
                              else HttpFailure),
       messages_delete = (\<lambda>n i. Returned ()),
       session_valid = (\<lambda>t. t = ''token'') \<rparr>"






text \<open>
  The classifier asks for a reply to email number 5 from alice, with three emails in the
  context, the second of them from Alice; the provider finds nothing in the inbox.
\<close>

definition reply_far_text :: string where
  \<open>reply_far_text =
     ''{"intent": "reply", "parameters": {"email_index": "5", "sender_email": "alice"}}''\<close>

definition reply_far :: json where
  "reply_far =
     JObj [(''intent'', JStr ''reply''),
           (''parameters'', JObj [(''email_index'', JStr ''5''),
                                  (''sender_email'', JStr ''alice'')])]"

definition reply_far_world :: world where
  "reply_far_world = scripted_world reply_far_text reply_far (\<lambda>q. Returned [])"

definition three_emails :: "pydict list" where
  "three_emails =
     [parse_message bob_message, parse_message alice_message, parse_message bob_message]"

definition three_request :: chat_request where
  "three_request =
     \<lparr> request_message = ''reply to email 5 from alice'', email_context = Some three_emails \<rparr>"

text \<open>
  The classifier asks for the deletion of an email by sender and by subject, without
  context; the provider has nothing from the sender in the inbox, and lists Alice's
  invoice for the subject.
\<close>

definition delete_both_text :: string where
  \<open>delete_both_text =
     ''{"intent": "delete", "parameters": {"sender_email": "carol", "subject_keyword": "Invoice"}}''\<close>

definition delete_both :: json where
  "delete_both =
     JObj [(''intent'', JStr ''delete''),
           (''parameters'', JObj [(''sender_email'', JStr ''carol''),
                                  (''subject_keyword'', JStr ''Invoice'')])]"

definition delete_both_world :: world where
  "delete_both_world =
     scripted_world delete_both_text delete_both
       (\<lambda>q. case q of SubjectHas k \<Rightarrow> Returned [''m1''] | _ \<Rightarrow> Returned [])"

definition plain_request :: chat_request where
  "plain_request =
     \<lparr> request_message = ''delete the invoice email from carol'', email_context = None \<rparr>"

text \<open>
  The classifier asks for a reply to email number 1 and names alice as well; the provider
  lists Alice's message for her. One context holds Bob's email before Alice's, the other
  holds a single empty dictionary.
\<close>

definition reply_first_text :: string where
  \<open>reply_first_text =
     ''{"intent": "reply", "parameters": {"email_index": "1", "sender_email": "alice"}}''\<close>

definition reply_first :: json where
  "reply_first =
     JObj [(''intent'', JStr ''reply''),
           (''parameters'', JObj [(''email_index'', JStr ''1''),
                                  (''sender_email'', JStr ''alice'')])]"


definition two_request :: chat_request where
  "two_request =
     \<lparr> request_message = ''reply to email 1'',
       email_context = Some [parse_message bob_message, parse_message alice_message] \<rparr>"


text \<open>The same classification, with a provider that answers every list request with an error.\<close>

definition failing_world :: world where
  "failing_world = scripted_world reply_first_text reply_first (\<lambda>q. HttpFailure)"

definition no_context_request :: chat_request where
  "no_context_request = \<lparr> request_message = ''reply to alice'', email_context = None \<rparr>"

text \<open>
  The classifier asks to read; the inbox lists Alice's message, Bob's and Alice's again,
  and the summary of Bob's fails.
\<close>

definition read_text :: string where
  \<open>read_text = ''{"intent": "read", "parameters": {}, "confidence": "high"}''\<close>

definition read_answer :: json where
  "read_answer =
     JObj [(''intent'', JStr ''read''), (''parameters'', JObj []),
           (''confidence'', JStr ''high'')]"

definition read_world :: world where
  "read_world = scripted_world read_text read_answer (\<lambda>q. Returned [''m1'', ''m2'', ''m1''])"

definition show_request :: chat_request where
  "show_request = \<lparr> request_message = ''Show me my emails'', email_context = None \<rparr>"

text \<open>
  The model cannot be reached; one inbox lists three messages, the last of which cannot be
  fetched, the other answers the list request with an error.
\<close>

definition small_inbox_world :: world where
  "small_inbox_world =
     scripted_world [] JNull (\<lambda>q. Returned [''m1'', ''m2'', ''m9''])
       \<lparr> llm := (\<lambda>n r. Raised ''connection refused'') \<rparr>"


definition digest_request :: chat_request where
  "digest_request =
     \<lparr> request_message = ''Give me a short digest'', email_context = None \<rparr>"

section \<open>Whole-word search\<close>

text \<open>
  The search of \<open>has_keyword\<close> finds a keyword that begins and ends with a word
  character exactly when the text contains it as a whole word.
\<close>

lemma word_before_append:
  "word_before (pre @ rest) (length pre) = (pre \<noteq> [] \<and> is_word_char (last pre))"
  by (cases pre rule: rev_cases) (auto simp: word_before_def nth_append)

lemma word_after_append:
  "word_after (pre @ rest) (length pre) = (rest \<noteq> [] \<and> is_word_char (hd rest))"
  by (cases rest) (auto simp: word_after_def nth_append)

lemma word_after_append2:
  "word_after (pre @ kw @ post) (length pre + length kw) = (post \<noteq> [] \<and> is_word_char (hd post))"
  using word_after_append [of "pre @ kw" post] by simp

lemma word_before_append2:
  "word_before (pre @ kw @ post) (length pre + length kw) = (pre @ kw \<noteq> [] \<and> is_word_char (last (pre @ kw)))"
  using word_before_append [of "pre @ kw" post] by simp

lemma match_at_append:
  assumes "kw \<noteq> []" "is_word_char (hd kw)" "is_word_char (last kw)"
  shows "match_at kw (pre @ kw @ post) (length pre) =
           ((pre = [] \<or> \<not> is_word_char (last pre)) \<and> (post = [] \<or> \<not> is_word_char (hd post)))"
  using assms
  by (auto simp: match_at_def word_boundary_def word_before_append word_after_append
                 word_before_append2 word_after_append2)

lemma match_at_split:
  assumes "match_at kw s i"
  shows "s = take i s @ kw @ drop (i + length kw) s \<and> length (take i s) = i"
proof -
  from assms have t: "take (length kw) (drop i s) = kw" and l: "length kw \<le> length s - i"
    by (auto simp: match_at_def)
  have "drop i s = take (length kw) (drop i s) @ drop (length kw) (drop i s)"
    by (rule append_take_drop_id [symmetric])
  with t have "drop i s = kw @ drop (length kw) (drop i s)" by simp
  then have "drop i s = kw @ drop (i + length kw) s" by (simp add: add.commute)
  moreover have "s = take i s @ drop i s" by simp
  ultimately have "s = take i s @ kw @ drop (i + length kw) s" by simp
  moreover have "i \<le> length s"
  proof (rule ccontr)
    assume "\<not> i \<le> length s"
    then have "drop i s = []" by simp
    with t have "kw = []" by simp
    with assms \<open>\<not> i \<le> length s\<close> show False
      by (auto simp: match_at_def word_boundary_def word_before_def word_after_def)
  qed
  ultimately show ?thesis by simp
qed

lemma re_search_whole_word:
  assumes "kw \<noteq> []" "is_word_char (hd kw)" "is_word_char (last kw)"
  shows "re_search kw s = whole_word kw s"
proof
  assume "re_search kw s"
  then obtain i where i: "match_at kw s i"
    by (auto simp: re_search_def list_ex_iff)
  define pre post where "pre = take i s" and "post = drop (i + length kw) s"
  from match_at_split [OF i] have s: "s = pre @ kw @ post" and len: "length pre = i"
    by (simp_all add: pre_def post_def)
  from i have "match_at kw (pre @ kw @ post) (length pre)" using s len by simp
  with match_at_append [OF assms] s show "whole_word kw s"
    unfolding whole_word_def by blast
next
  assume "whole_word kw s"
  then obtain pre post where s: "s = pre @ kw @ post"
    and b: "pre = [] \<or> \<not> is_word_char (last pre)" "post = [] \<or> \<not> is_word_char (hd post)"
    unfolding whole_word_def by blast
  then have "match_at kw s (length pre)" using match_at_append [OF assms] by simp
  moreover have "length pre \<in> set [0..<Suc (length s)]" using s by simp
  ultimately show "re_search kw s" unfolding re_search_def list_ex_iff by blast
qed

lemma has_keyword_iff: "has_keyword m ks = (\<exists>k\<in>set ks. re_search k m)"
  by (induction ks) auto

section \<open>The classifier never raises\<close>

text \<open>
  Claim C3. \<^verbatim>\<open>process_natural_language_command\<close> returns a dictionary for every input
  and every behaviour of the model. Whenever the body of its \<^verbatim>\<open>try\<close> block raises with
  description \<open>e\<close>, the result is the dictionary with intent \<^verbatim>\<open>unknown\<close>, empty
  parameters, confidence \<^verbatim>\<open>low\<close> and \<open>e\<close> under \<^verbatim>\<open>error\<close>. The body raises when the
  request to the model raises (transport error), when the content is missing, when
  \<^verbatim>\<open>json.loads\<close> raises, and when the parsed value is not a dictionary; in the only
  other case the parsed dictionary is returned.
\<close>

theorem classifier_never_raises:
  "(command_try w log command ctx = Inl e \<longrightarrow>
      fst (process_natural_language_command w log command ctx) =
        [(''intent'', JStr ''unknown''), (''parameters'', JObj []),
         (''confidence'', JStr ''low''), (''error'', JStr e)])
   \<and> (llm w (length log) (CommandPrompt command (context_listing ctx)) = Raised e \<longrightarrow>
        command_try w log command ctx = Inl e)
   \<and> (llm w (length log) (CommandPrompt command (context_listing ctx)) = Content None \<longrightarrow>
        (\<exists>e'. command_try w log command ctx = Inl e'))
   \<and> (llm w (length log) (CommandPrompt command (context_listing ctx)) = Content (Some s)
        \<and> json_loads w s = Inl e \<longrightarrow> command_try w log command ctx = Inl e)
   \<and> (llm w (length log) (CommandPrompt command (context_listing ctx)) = Content (Some s)
        \<and> json_loads w s = Inr v \<and> (\<forall>d. v \<noteq> JObj d) \<longrightarrow>
        (\<exists>e'. command_try w log command ctx = Inl e'))
   \<and> ((\<exists>e'. command_try w log command ctx = Inl e') \<or>
       (\<exists>s' d. llm w (length log) (CommandPrompt command (context_listing ctx)) = Content (Some s')
          \<and> json_loads w s' = Inr (JObj d)
          \<and> fst (process_natural_language_command w log command ctx) = d))"
  by (auto simp: process_natural_language_command_def command_try_def unknown_command_def
           split: completion.splits option.splits sum.splits json.splits)

theorem classifier_never_raises_witness:
  "llm offline_world (length ([]::call list)) (CommandPrompt ''delete it'' (context_listing []))
     = Raised ''connection refused''
   \<and> fst (process_natural_language_command offline_world [] ''delete it'' []) =
     [(''intent'', JStr ''unknown''), (''parameters'', JObj []),
      (''confidence'', JStr ''low''), (''error'', JStr ''connection refused'')]"
  using classifier_never_raises [of offline_world "[]" "''delete it''" "[]" "''connection refused''"]
  by (simp add: offline_world_def)

section \<open>Routing by intent and keyword\<close>

lemma keyword_facts:
  "k \<in> set [''read'', ''show'', ''fetch'', ''reply'', ''respond'', ''delete'', ''remove'',
             ''digest'', ''summary''] \<Longrightarrow> k \<noteq> [] \<and> is_word_char (hd k) \<and> is_word_char (last k)"
  by (auto simp: is_word_char_def)

lemma has_keyword_whole_word:
  assumes "set ks \<subseteq> set [''read'', ''show'', ''fetch'', ''reply'', ''respond'', ''delete'',
                           ''remove'', ''digest'', ''summary'']"
  shows "has_keyword m ks = (\<exists>k\<in>set ks. whole_word k m)"
proof -
  have "re_search k m = whole_word k m" if "k \<in> set ks" for k
    using keyword_facts [of k] that assms re_search_whole_word [of k m] by blast
  then show ?thesis by (auto simp: has_keyword_iff)
qed

lemma failed_intent:
  "command_try w [] (request_message request) (context_of request) = Inl e
     \<Longrightarrow> intent_of w request = JStr ''unknown''"
  by (simp add: intent_of_def command_result_of_def process_natural_language_command_def
                unknown_command_def dict_get_def)

lemma routed_branch_spec:
  "routed_branch w request =
     (if intent_of w request = JStr ''read''
         \<or> (\<exists>k\<in>set [''read'', ''show'', ''fetch'']. whole_word k (user_message_of request))
      then ReadBranch
      else if intent_of w request = JStr ''reply''
         \<or> (\<exists>k\<in>set [''reply'', ''respond'']. whole_word k (user_message_of request))
      then ReplyBranch
      else if intent_of w request = JStr ''delete''
         \<or> (\<exists>k\<in>set [''delete'', ''remove'']. whole_word k (user_message_of request))
      then DeleteBranch
      else if intent_of w request = JStr ''digest''
         \<or> (\<exists>k\<in>set [''digest'', ''summary'']. whole_word k (user_message_of request))
      then DigestBranch
      else InfoBranch)"
proof -
  let ?m = "user_message_of request"
  have r: "has_keyword ?m [''read'', ''show'', ''fetch'']
             = (\<exists>k\<in>set [''read'', ''show'', ''fetch'']. whole_word k ?m)"
    by (rule has_keyword_whole_word) simp
  have p: "has_keyword ?m [''reply'', ''respond'']
             = (\<exists>k\<in>set [''reply'', ''respond'']. whole_word k ?m)"
    by (rule has_keyword_whole_word) simp
  have d: "has_keyword ?m [''delete'', ''remove'']
             = (\<exists>k\<in>set [''delete'', ''remove'']. whole_word k ?m)"
    by (rule has_keyword_whole_word) simp
  have g: "has_keyword ?m [''digest'', ''summary'']
             = (\<exists>k\<in>set [''digest'', ''summary'']. whole_word k ?m)"
    by (rule has_keyword_whole_word) simp
  show ?thesis
    unfolding routed_branch_def choose_branch_def r p d g ..
qed

text \<open>
  Claim C2. For a valid session, the answer of the route is the outcome of the first
  branch, in the order read, reply, delete, digest, whose condition holds, and of the
  fallback when none holds; an exception of the branch becomes status 500. The condition
  of a branch is that the intent in the classifier's answer names it, or that the
  lower-cased, stripped text of the request contains one of its keywords as a whole word.
  When the classifier fails, the intent read from its answer is \<^verbatim>\<open>unknown\<close>, so that the
  keywords alone decide. A keyword that only occurs inside a longer word does not count.
\<close>

theorem keyword_routing:
  assumes "session_valid w token"
  shows "process_chat_message w token request =
     (let m = str_strip (str_lower (request_message request));
          ctx = (case email_context request of None \<Rightarrow> [] | Some c \<Rightarrow> c);
          classified = process_natural_language_command w [] (request_message request) ctx;
          command_result = fst classified;
          log = snd classified;
          intent_value = dict_get command_result ''intent'' (JStr ''unknown'');
          parameters = dict_get command_result ''parameters'' (JObj []);
          response_data = \<lparr> intent = intent_value,
                            confidence = dict_get command_result ''confidence'' (JStr ''low''),
                            message = [], action = None, data = JNull \<rparr>;
          outcome =
            (if intent_value = JStr ''read''
                \<or> (\<exists>k\<in>set [''read'', ''show'', ''fetch'']. whole_word k m)
             then read_branch w log response_data m
             else if intent_value = JStr ''reply''
                \<or> (\<exists>k\<in>set [''reply'', ''respond'']. whole_word k m)
             then reply_branch w log response_data parameters ctx
             else if intent_value = JStr ''delete''
                \<or> (\<exists>k\<in>set [''delete'', ''remove'']. whole_word k m)
             then delete_branch w log response_data parameters ctx
             else if intent_value = JStr ''digest''
                \<or> (\<exists>k\<in>set [''digest'', ''summary'']. whole_word k m)
             then digest_branch w log response_data
             else info_branch log response_data)
      in case outcome of
           (Inl e, log') \<Rightarrow> (Inl (HTTPException 500 (Some e)), log')
         | (Inr r, log') \<Rightarrow> (Inr r, log'))
   \<and> ((\<exists>e. command_try w [] (request_message request)
              (case email_context request of None \<Rightarrow> [] | Some c \<Rightarrow> c) = Inl e)
        \<longrightarrow> dict_get (fst (process_natural_language_command w [] (request_message request)
                               (case email_context request of None \<Rightarrow> [] | Some c \<Rightarrow> c)))
              ''intent'' (JStr ''unknown'') = JStr ''unknown'')"
proof (intro conjI)
  show "process_chat_message w token request =
     (let m = str_strip (str_lower (request_message request));
          ctx = (case email_context request of None \<Rightarrow> [] | Some c \<Rightarrow> c);
          classified = process_natural_language_command w [] (request_message request) ctx;
          command_result = fst classified;
          log = snd classified;
          intent_value = dict_get command_result ''intent'' (JStr ''unknown'');
          parameters = dict_get command_result ''parameters'' (JObj []);
          response_data = \<lparr> intent = intent_value,
                            confidence = dict_get command_result ''confidence'' (JStr ''low''),
                            message = [], action = None, data = JNull \<rparr>;
          outcome =
            (if intent_value = JStr ''read''
                \<or> (\<exists>k\<in>set [''read'', ''show'', ''fetch'']. whole_word k m)
             then read_branch w log response_data m
             else if intent_value = JStr ''reply''
                \<or> (\<exists>k\<in>set [''reply'', ''respond'']. whole_word k m)
             then reply_branch w log response_data parameters ctx
             else if intent_value = JStr ''delete''
                \<or> (\<exists>k\<in>set [''delete'', ''remove'']. whole_word k m)
             then delete_branch w log response_data parameters ctx
             else if intent_value = JStr ''digest''
                \<or> (\<exists>k\<in>set [''digest'', ''summary'']. whole_word k m)
             then digest_branch w log response_data
             else info_branch log response_data)
      in case outcome of
           (Inl e, log') \<Rightarrow> (Inl (HTTPException 500 (Some e)), log')
         | (Inr r, log') \<Rightarrow> (Inr r, log'))"
    unfolding process_chat_message_def chat_try_def routed_branch_spec Let_def
      intent_of_def parameters_of_def confidence_of_def initial_response_def
      command_result_of_def first_log_def user_message_of_def context_of_def
    using assms by simp
  show "(\<exists>e. command_try w [] (request_message request)
              (case email_context request of None \<Rightarrow> [] | Some c \<Rightarrow> c) = Inl e)
        \<longrightarrow> dict_get (fst (process_natural_language_command w [] (request_message request)
                               (case email_context request of None \<Rightarrow> [] | Some c \<Rightarrow> c)))
              ''intent'' (JStr ''unknown'') = JStr ''unknown''"
    using failed_intent [of w request]
    by (auto simp: intent_of_def command_result_of_def context_of_def)
qed

lemma shouting_text: "user_message_of shouting_request = ''please read it.''"
  by (simp add: user_message_of_def shouting_request_def str_strip_def str_lower_def
        lower_char_def is_space_char_def)

lemma shouting_word: "whole_word ''read'' ''please read it.''"
  unfolding whole_word_def
  by (rule exI [of _ "''please ''"], rule exI [of _ "'' it.''"]) (simp add: is_word_char_def)

lemma thread_no_word: "\<not> whole_word k ''thread''" if "k \<in> set [''read'', ''show'', ''fetch'', ''reply'', ''respond'', ''delete'', ''remove'',
             ''digest'', ''summary'']"
proof -
  have "\<not> re_search k ''thread''" using that by (auto simp: re_search_def match_at_def word_boundary_def word_before_def word_after_def is_word_char_def)
  then show ?thesis using re_search_whole_word[of k "''thread''"] keyword_facts[OF that] by simp
qed

lemma offline_route_facts:
  "session_valid offline_world ''token''"
  "command_try offline_world [] (request_message shouting_request)
     (case email_context shouting_request of None \<Rightarrow> [] | Some c \<Rightarrow> c)
     = Inl ''connection refused''"
  "str_strip (str_lower (request_message shouting_request)) = ''please read it.''"
  "process_chat_message offline_world ''token'' shouting_request =
     (Inr \<lparr> intent = JStr ''unknown'', confidence = JStr ''low'',
            message = [Lit ''I found '', Number 0, Lit '' recent emails. Here they are:''],
            action = Some ''display_emails'', data = JObj [(''emails'', JArr [])] \<rparr>,
      [ModelCall (CommandPrompt ''  Please READ it. '' None),
       MailCall (MessagesList 5 InInbox)])"
  "str_strip (str_lower (request_message thread_request)) = ''thread''"
  "str_contains ''read'' ''thread''"
  "(case fst (process_chat_message offline_world ''token'' thread_request) of
      Inl e \<Rightarrow> None | Inr r \<Rightarrow> action r) = Some ''info''"
  by code_simp+

theorem keyword_routing_witness:
  "session_valid offline_world ''token''
   \<and> command_try offline_world [] (request_message shouting_request)
        (case email_context shouting_request of None \<Rightarrow> [] | Some c \<Rightarrow> c)
       = Inl ''connection refused''
   \<and> whole_word ''read'' (str_strip (str_lower (request_message shouting_request)))
   \<and> process_chat_message offline_world ''token'' shouting_request =
     (Inr \<lparr> intent = JStr ''unknown'', confidence = JStr ''low'',
            message = [Lit ''I found '', Number 0, Lit '' recent emails. Here they are:''],
            action = Some ''display_emails'', data = JObj [(''emails'', JArr [])] \<rparr>,
      [ModelCall (CommandPrompt ''  Please READ it. '' None),
       MailCall (MessagesList 5 InInbox)])
   \<and> str_contains ''read'' (str_strip (str_lower (request_message thread_request)))
   \<and> (case fst (process_chat_message offline_world ''token'' thread_request) of
         Inl e \<Rightarrow> None | Inr r \<Rightarrow> action r) = Some ''info''"
  using keyword_routing [OF offline_route_facts(1), of shouting_request]
        keyword_routing [OF offline_route_facts(1), of thread_request]
        offline_route_facts shouting_word
  by simp

section \<open>The fallback\<close>

lemma first_log_eq:
  "first_log w request =
     [ModelCall (CommandPrompt (request_message request) (context_listing (context_of request)))]"
  by (simp add: first_log_def process_natural_language_command_def)

lemma process_info:
  assumes "session_valid w token" "routed_branch w request = InfoBranch"
  shows "process_chat_message w token request =
     (Inr \<lparr> intent = intent_of w request, confidence = confidence_of w request,
            message = help_message, action = Some ''info'', data = JNull \<rparr>,
      [ModelCall (CommandPrompt (request_message request) (context_listing (context_of request)))])"
  using assms
  by (simp add: process_chat_message_def chat_try_def info_branch_def initial_response_def
        first_log_eq)

lemma help_message_lists:
  "mentions ''read emails'' help_message" "mentions ''generate replies'' help_message"
  "mentions ''delete emails'' help_message" "\<not> mentions ''digest'' help_message"
  by code_simp+

text \<open>
  Claim C9, as amended. For a valid session, when the intent in the classifier's answer is
  none of \<^verbatim>\<open>read\<close>, \<^verbatim>\<open>reply\<close>, \<^verbatim>\<open>delete\<close>, \<^verbatim>\<open>digest\<close> and the lower-cased,
  stripped text contains none of the nine keywords as a whole word, the route answers with
  the fixed fallback: action \<^verbatim>\<open>info\<close>, no data, the classifier's intent and confidence
  passed through, and the fixed help text. That text names the commands to read emails,
  to generate replies and to delete emails; it does not name the digest. The classifier's
  request is the only call to the outside.
\<close>

theorem fallback_info:
  assumes "session_valid w token"
    and "dict_get (fst (process_natural_language_command w [] (request_message request)
                          (case email_context request of None \<Rightarrow> [] | Some c \<Rightarrow> c)))
           ''intent'' (JStr ''unknown'')
         \<notin> {JStr ''read'', JStr ''reply'', JStr ''delete'', JStr ''digest''}"
    and "\<forall>k\<in>set [''read'', ''show'', ''fetch'', ''reply'', ''respond'', ''delete'', ''remove'',
                   ''digest'', ''summary''].
           \<not> whole_word k (str_strip (str_lower (request_message request)))"
  shows \<open>(let text =
            [Lit ''I'm your AI email assistant! I can help you with:'', Lit [CHR 0x0A],
             Lit ''            '', Lit [CHR 0x0A],
             Code 0xE2, Code 0x20AC, Code 0xA2,
             Lit '' **Read emails**: "Show me my recent emails" or "Fetch last 5 emails"'',
             Lit [CHR 0x0A],
             Code 0xE2, Code 0x20AC, Code 0xA2,
             Lit '' **Generate replies**: "Reply to John" or "Generate a reply to the latest email from [sender]"'',
             Lit [CHR 0x0A],
             Code 0xE2, Code 0x20AC, Code 0xA2,
             Lit '' **Delete emails**: "Delete the latest email from [sender]" or "Delete email number 2"'',
             Lit [CHR 0x0A], Lit [CHR 0x0A],
             Lit ''Try asking me to fetch your emails first, and then I can help you reply or delete specific ones!'']
          in process_chat_message w token request =
               (Inr \<lparr> intent =
                        dict_get (fst (process_natural_language_command w []
                                         (request_message request)
                                         (case email_context request of
                                            None \<Rightarrow> [] | Some c \<Rightarrow> c)))
                          ''intent'' (JStr ''unknown''),
                      confidence =
                        dict_get (fst (process_natural_language_command w []
                                         (request_message request)
                                         (case email_context request of
                                            None \<Rightarrow> [] | Some c \<Rightarrow> c)))
                          ''confidence'' (JStr ''low''),
                      message = text, action = Some ''info'', data = JNull \<rparr>,
                [ModelCall (CommandPrompt (request_message request)
                              (context_listing (case email_context request of
                                                  None \<Rightarrow> [] | Some c \<Rightarrow> c)))])
             \<and> mentions ''read emails'' text \<and> mentions ''generate replies'' text
             \<and> mentions ''delete emails'' text \<and> \<not> mentions ''digest'' text)\<close>
proof -
  have r: "routed_branch w request = InfoBranch"
    using assms(2,3)
    by (simp add: routed_branch_spec intent_of_def command_result_of_def user_message_of_def
          context_of_def)
  show ?thesis
    unfolding Let_def
    using process_info [OF assms(1) r] help_message_lists
    by (simp add: help_message_def intent_of_def confidence_of_def command_result_of_def
          context_of_def)
qed

lemma thread_facts:
  "session_valid offline_world ''token''"
  "dict_get (fst (process_natural_language_command offline_world []
                    (request_message thread_request)
                    (case email_context thread_request of None \<Rightarrow> [] | Some c \<Rightarrow> c)))
     ''intent'' (JStr ''unknown'') = JStr ''unknown''"
  "dict_get (fst (process_natural_language_command offline_world []
                    (request_message thread_request)
                    (case email_context thread_request of None \<Rightarrow> [] | Some c \<Rightarrow> c)))
     ''confidence'' (JStr ''low'') = JStr ''low''"
  "str_strip (str_lower (request_message thread_request)) = ''thread''"
  "request_message thread_request = ''thread''"
  "email_context thread_request = None"
  by code_simp+

theorem fallback_info_witness:
  \<open>session_valid offline_world ''token''
   \<and> dict_get (fst (process_natural_language_command offline_world []
                    (request_message thread_request)
                    (case email_context thread_request of None \<Rightarrow> [] | Some c \<Rightarrow> c)))
        ''intent'' (JStr ''unknown'') = JStr ''unknown''
   \<and> process_chat_message offline_world ''token'' thread_request =
     (Inr \<lparr> intent = JStr ''unknown'', confidence = JStr ''low'',
            message =
              [Lit ''I'm your AI email assistant! I can help you with:'', Lit [CHR 0x0A],
               Lit ''            '', Lit [CHR 0x0A],
               Code 0xE2, Code 0x20AC, Code 0xA2,
               Lit '' **Read emails**: "Show me my recent emails" or "Fetch last 5 emails"'',
               Lit [CHR 0x0A],
               Code 0xE2, Code 0x20AC, Code 0xA2,
               Lit '' **Generate replies**: "Reply to John" or "Generate a reply to the latest email from [sender]"'',
               Lit [CHR 0x0A],
               Code 0xE2, Code 0x20AC, Code 0xA2,
               Lit '' **Delete emails**: "Delete the latest email from [sender]" or "Delete email number 2"'',
               Lit [CHR 0x0A], Lit [CHR 0x0A],
               Lit ''Try asking me to fetch your emails first, and then I can help you reply or delete specific ones!''],
            action = Some ''info'', data = JNull \<rparr>,
      [ModelCall (CommandPrompt ''thread'' None)])\<close>
proof -
  have n: "\<forall>k\<in>set [''read'', ''show'', ''fetch'', ''reply'', ''respond'', ''delete'', ''remove'',
                   ''digest'', ''summary''].
             \<not> whole_word k (str_strip (str_lower (request_message thread_request)))"
    using thread_no_word thread_facts(4) by simp
  have i: "dict_get (fst (process_natural_language_command offline_world []
                    (request_message thread_request)
                    (case email_context thread_request of None \<Rightarrow> [] | Some c \<Rightarrow> c)))
             ''intent'' (JStr ''unknown'')
           \<notin> {JStr ''read'', JStr ''reply'', JStr ''delete'', JStr ''digest''}"
    using thread_facts(2) by simp
  show ?thesis
    using fallback_info [OF thread_facts(1) i n] thread_facts
    by (simp add: Let_def context_listing_def)
qed

text \<open>
  The claim as it was stated, with a message that lists the supported commands, fails for
  the digest: a request for a digest is served, with action \<^verbatim>\<open>display_digest\<close>, yet the
  help text of the fallback does not mention it.
\<close>

theorem help_text_counterexample:
  \<open>session_valid small_inbox_world ''token''
   \<and> fst (process_chat_message small_inbox_world ''token'' digest_request) =
       Inr \<lparr> intent = JStr ''unknown'', confidence = JStr ''low'',
              message = [Lit ''Here's your daily email digest:''],
              action = Some ''display_digest'',
              data = JObj [(''digest'', JStr ''Unable to generate digest at this time.''),
                           (''email_count'', JNum 2)] \<rparr>
   \<and> session_valid offline_world ''token''
   \<and> process_chat_message offline_world ''token'' thread_request =
     (Inr \<lparr> intent = JStr ''unknown'', confidence = JStr ''low'',
            message =
              [Lit ''I'm your AI email assistant! I can help you with:'', Lit [CHR 0x0A],
               Lit ''            '', Lit [CHR 0x0A],
               Code 0xE2, Code 0x20AC, Code 0xA2,
               Lit '' **Read emails**: "Show me my recent emails" or "Fetch last 5 emails"'',
               Lit [CHR 0x0A],
               Code 0xE2, Code 0x20AC, Code 0xA2,
               Lit '' **Generate replies**: "Reply to John" or "Generate a reply to the latest email from [sender]"'',
               Lit [CHR 0x0A],
               Code 0xE2, Code 0x20AC, Code 0xA2,
               Lit '' **Delete emails**: "Delete the latest email from [sender]" or "Delete email number 2"'',
               Lit [CHR 0x0A], Lit [CHR 0x0A],
               Lit ''Try asking me to fetch your emails first, and then I can help you reply or delete specific ones!''],
            action = Some ''info'', data = JNull \<rparr>,
      [ModelCall (CommandPrompt ''thread'' None)])
   \<and> \<not> mentions ''digest''
         [Lit ''I'm your AI email assistant! I can help you with:'', Lit [CHR 0x0A],
          Lit ''            '', Lit [CHR 0x0A],
          Code 0xE2, Code 0x20AC, Code 0xA2,
          Lit '' **Read emails**: "Show me my recent emails" or "Fetch last 5 emails"'',
          Lit [CHR 0x0A],
          Code 0xE2, Code 0x20AC, Code 0xA2,
          Lit '' **Generate replies**: "Reply to John" or "Generate a reply to the latest email from [sender]"'',
          Lit [CHR 0x0A],
          Code 0xE2, Code 0x20AC, Code 0xA2,
          Lit '' **Delete emails**: "Delete the latest email from [sender]" or "Delete email number 2"'',
          Lit [CHR 0x0A], Lit [CHR 0x0A],
          Lit ''Try asking me to fetch your emails first, and then I can help you reply or delete specific ones!'']\<close>
  by code_simp

section \<open>The chat route sends no destructive call\<close>

lemma quiet_simps [simp]:
  "quiet []" "quiet (xs @ ys) = (quiet xs \<and> quiet ys)"
  "quiet (c # cs) = (\<not> destructive c \<and> quiet cs)"
  by (auto simp: quiet_def)

lemma delete_email_destructive: "\<not> quiet (snd (delete_email w log message_id))"
  by (simp add: delete_email_def split: api.splits)



















section \<open>Deleting is only ever proposed\<close>







section \<open>Resolving the target\<close>

lemma index_given_digits: "str_isdigit s \<Longrightarrow> index_given (JStr s) = Inr True"
  by (auto simp: index_given_def py_isdigit_def str_isdigit_def)

lemma select_out_of_range:
  "str_int s = Inr k \<Longrightarrow> \<not> (1 \<le> k \<and> k \<le> int (length ctx))
     \<Longrightarrow> select_by_index (JStr s) ctx = Inr None"
  by (auto simp: select_by_index_def py_int_def)


text \<open>
  Claim C4, as amended. In the reply branch, when the context is not empty, the index is
  a string of digits that \<^verbatim>\<open>int\<close> converts, the converted index lies outside the
  context, and a sender is given, the context yields no target and is not scanned for the
  sender: the resolution goes straight to the provider's search by sender, and its answer
  is the target.
\<close>

theorem reply_index_out_of_range:
  assumes "ctx \<noteq> []" and "str_isdigit s" and "str_int s = Inr k"
    and "\<not> (1 \<le> k \<and> k \<le> int (length ctx))" and "truthy sender_email"
  shows "reply_context_target (JStr s) sender_email ctx = Inr None
       \<and> reply_target w log (JStr s) sender_email ctx =
           (Inr (fst (find_email_by_sender w log sender_email)),
            snd (find_email_by_sender w log sender_email))"
proof -
  have c: "reply_context_target (JStr s) sender_email ctx = Inr None"
    using assms by (simp add: reply_context_target_def index_given_digits select_out_of_range)
  then show ?thesis
    using assms(5) by (simp add: reply_target_def found_def split: prod.splits)
qed

lemma three_emails_facts:
  "three_emails \<noteq> []" "str_isdigit ''5''" "str_int ''5'' = Inr 5"
  "\<not> (1 \<le> (5::int) \<and> 5 \<le> int (length three_emails))" "truthy (JStr ''alice'')"
  by code_simp+

theorem reply_index_out_of_range_witness:
  "three_emails \<noteq> [] \<and> str_isdigit ''5'' \<and> str_int ''5'' = Inr 5
   \<and> \<not> (1 \<le> (5::int) \<and> 5 \<le> int (length three_emails)) \<and> truthy (JStr ''alice'')
   \<and> reply_context_target (JStr ''5'') (JStr ''alice'') three_emails = Inr None
   \<and> reply_target reply_far_world [] (JStr ''5'') (JStr ''alice'') three_emails =
       (Inr (fst (find_email_by_sender reply_far_world [] (JStr ''alice''))),
        snd (find_email_by_sender reply_far_world [] (JStr ''alice'')))"
  using reply_index_out_of_range [of three_emails "''5''" 5 "JStr ''alice''" reply_far_world "[]"]
        three_emails_facts
  by simp

text \<open>
  The claim as it was stated, with a scan of the context before the provider, fails: the
  context holds an email from Alice, which a scan for \<^verbatim>\<open>alice\<close> would select, yet with
  the index 5 and three emails the route asks the provider only, finds nothing there, and
  answers that the email could not be found.
\<close>

theorem reply_context_scan_counterexample:
  "session_valid reply_far_world ''token''
   \<and> routed_branch reply_far_world three_request = ReplyBranch
   \<and> parameters_of reply_far_world three_request =
        JObj [(''email_index'', JStr ''5''), (''sender_email'', JStr ''alice'')]
   \<and> context_of three_request = three_emails
   \<and> length three_emails = 3
   \<and> scan_context ''sender_email'' (JStr ''alice'') three_emails
        = Inr (Some (parse_message alice_message))
   \<and> reply_target reply_far_world (first_log reply_far_world three_request)
        (JStr ''5'') (JStr ''alice'') three_emails
        = (Inr None,
           first_log reply_far_world three_request
             @ [MailCall (MessagesList 1 (FromSender (JStr ''alice'')))])
   \<and> fst (process_chat_message reply_far_world ''token'' three_request) =
        Inr \<lparr> intent = JStr ''reply'', confidence = JStr ''low'', message = reply_miss,
               action = Some ''error'', data = JNull \<rparr>"
  by code_simp

text \<open>
  Claim C5, as amended. In the delete branch, when the search in the context has found
  no target, the provider is asked once: by sender when a sender is given, by subject only
  when no sender is given and a subject keyword is, and not at all when neither is given.
  When the search by sender finds nothing, the target stays unresolved and no search by
  subject is sent.
\<close>

theorem delete_provider_fallback:
  assumes "delete_context_target email_index sender_email subject_keyword ctx = Inr t0"
    and "\<not> found t0"
  shows "(truthy sender_email \<longrightarrow>
            delete_target w log email_index sender_email subject_keyword ctx =
              (Inr (fst (find_email_by_sender w log sender_email)),
               snd (find_email_by_sender w log sender_email)))
       \<and> (\<not> truthy sender_email \<and> truthy subject_keyword \<longrightarrow>
            delete_target w log email_index sender_email subject_keyword ctx =
              (Inr (fst (find_email_by_subject w log subject_keyword)),
               snd (find_email_by_subject w log subject_keyword)))
       \<and> (\<not> truthy sender_email \<and> \<not> truthy subject_keyword \<longrightarrow>
            delete_target w log email_index sender_email subject_keyword ctx = (Inr t0, log))
       \<and> (truthy sender_email \<and> fst (find_email_by_sender w log sender_email) = None \<longrightarrow>
            fst (delete_target w log email_index sender_email subject_keyword ctx) = Inr None
            \<and> (\<forall>n q. MailCall (MessagesList n (SubjectHas q))
                        \<in> set (snd (delete_target w log email_index sender_email
                                      subject_keyword ctx))
                   \<longrightarrow> MailCall (MessagesList n (SubjectHas q)) \<in> set log))"
proof -
  have l: "MailCall (MessagesList n (SubjectHas q)) \<in> set (snd (find_email_by_sender w log x))
             \<Longrightarrow> MailCall (MessagesList n (SubjectHas q)) \<in> set log" for n q x
    by (auto simp: find_email_by_sender_def split: api.splits list.splits)
  have t: "delete_target w log email_index sender_email subject_keyword ctx =
             (if truthy sender_email
              then (Inr (fst (find_email_by_sender w log sender_email)),
                    snd (find_email_by_sender w log sender_email))
              else if truthy subject_keyword
              then (Inr (fst (find_email_by_subject w log subject_keyword)),
                    snd (find_email_by_subject w log subject_keyword))
              else (Inr t0, log))"
    using assms by (simp add: delete_target_def split: prod.splits)
  show ?thesis
    unfolding t using l by auto
qed

lemma plain_facts:
  "delete_context_target (JStr []) (JStr ''carol'') (JStr ''Invoice'') [] = Inr None"
  "\<not> found None" "truthy (JStr ''carol'')"
  "fst (find_email_by_sender delete_both_world (first_log delete_both_world plain_request)
          (JStr ''carol'')) = None"
  by code_simp+

theorem delete_provider_fallback_witness:
  "delete_context_target (JStr []) (JStr ''carol'') (JStr ''Invoice'') [] = Inr None
   \<and> \<not> found None \<and> truthy (JStr ''carol'')
   \<and> delete_target delete_both_world (first_log delete_both_world plain_request)
        (JStr []) (JStr ''carol'') (JStr ''Invoice'') []
      = (Inr (fst (find_email_by_sender delete_both_world
                     (first_log delete_both_world plain_request) (JStr ''carol''))),
         snd (find_email_by_sender delete_both_world
                (first_log delete_both_world plain_request) (JStr ''carol'')))
   \<and> fst (delete_target delete_both_world (first_log delete_both_world plain_request)
        (JStr []) (JStr ''carol'') (JStr ''Invoice'') []) = Inr None"
  using delete_provider_fallback [of "JStr []" "JStr ''carol''" "JStr ''Invoice''" "[]" None
          delete_both_world "first_log delete_both_world plain_request"]
        plain_facts
  by simp

text \<open>
  The claim as it was stated, with the search by subject attempted after a search by
  sender that returns no email, fails: sender and subject keyword are both given, the
  provider has nothing from the sender, a search by subject would return Alice's invoice,
  yet the only request sent to the provider is the list by sender and the route answers
  that the email could not be found.
\<close>

theorem subject_search_counterexample:
  "session_valid delete_both_world ''token''
   \<and> routed_branch delete_both_world plain_request = DeleteBranch
   \<and> parameters_of delete_both_world plain_request =
        JObj [(''sender_email'', JStr ''carol''), (''subject_keyword'', JStr ''Invoice'')]
   \<and> fst (find_email_by_sender delete_both_world (first_log delete_both_world plain_request)
             (JStr ''carol'')) = None
   \<and> fst (find_email_by_subject delete_both_world
             (snd (find_email_by_sender delete_both_world
                     (first_log delete_both_world plain_request) (JStr ''carol'')))
             (JStr ''Invoice'')) = Some (parse_message alice_message)
   \<and> process_chat_message delete_both_world ''token'' plain_request =
        (Inr \<lparr> intent = JStr ''delete'', confidence = JStr ''low'', message = delete_miss,
                action = Some ''error'', data = JNull \<rparr>,
         [ModelCall (CommandPrompt ''delete the invoice email from carol'' None),
          MailCall (MessagesList 1 (FromSender (JStr ''carol'')))])"
  by code_simp





section \<open>A provider error is a miss\<close>

lemma find_by_sender_fails:
  "lookup_fails w (length log) (FromSender s) \<Longrightarrow> fst (find_email_by_sender w log s) = None"
  by (auto simp: lookup_fails_def find_email_by_sender_def split: api.splits list.splits)

lemma find_by_subject_fails:
  "lookup_fails w (length log) (SubjectHas s) \<Longrightarrow> fst (find_email_by_subject w log s) = None"
  by (auto simp: lookup_fails_def find_email_by_subject_def split: api.splits list.splits)

lemma reply_target_unfold:
  "reply_target w log i s ctx =
     (case reply_context_target i s ctx of
        Inl e \<Rightarrow> (Inl e, log)
      | Inr t \<Rightarrow>
          if \<not> found t \<and> truthy s
          then (Inr (fst (find_email_by_sender w log s)), snd (find_email_by_sender w log s))
          else (Inr t, log))"
  by (simp add: reply_target_def case_prod_beta split: sum.splits)

lemma delete_target_unfold:
  "delete_target w log i s k ctx =
     (case delete_context_target i s k ctx of
        Inl e \<Rightarrow> (Inl e, log)
      | Inr t \<Rightarrow>
          if \<not> found t then
            (if truthy s
             then (Inr (fst (find_email_by_sender w log s)), snd (find_email_by_sender w log s))
             else if truthy k
             then (Inr (fst (find_email_by_subject w log k)), snd (find_email_by_subject w log k))
             else (Inr t, log))
          else (Inr t, log))"
  by (simp add: delete_target_def case_prod_beta split: sum.splits)

lemma reply_branch_miss:
  assumes "reply_target w log (dict_get p ''email_index'' (JStr []))
             (dict_get p ''sender_email'' (JStr [])) ctx = (Inr None, log1)"
  shows "reply_branch w log r (JObj p) ctx =
           (Inr (r \<lparr> message := reply_miss, action := Some ''error'' \<rparr>), log1)"
  using assms by (simp add: reply_branch_def Let_def)

lemma delete_branch_miss:
  assumes "delete_target w log (dict_get p ''email_index'' (JStr []))
             (dict_get p ''sender_email'' (JStr [])) (dict_get p ''subject_keyword'' (JStr []))
             ctx = (Inr None, log1)"
  shows "delete_branch w log r (JObj p) ctx =
           (Inr (r \<lparr> message := delete_miss, action := Some ''error'' \<rparr>), log1)"
  using assms by (simp add: delete_branch_def Let_def)

lemma process_reply:
  assumes "session_valid w token" "routed_branch w request = ReplyBranch"
  shows "process_chat_message w token request =
     (case reply_branch w (first_log w request) (initial_response w request)
             (parameters_of w request) (context_of request) of
        (Inl e, log) \<Rightarrow> (Inl (HTTPException 500 (Some e)), log)
      | (Inr r, log) \<Rightarrow> (Inr r, log))"
  using assms by (simp add: process_chat_message_def chat_try_def)

lemma process_delete:
  assumes "session_valid w token" "routed_branch w request = DeleteBranch"
  shows "process_chat_message w token request =
     (case delete_branch w (first_log w request) (initial_response w request)
             (parameters_of w request) (context_of request) of
        (Inl e, log) \<Rightarrow> (Inl (HTTPException 500 (Some e)), log)
      | (Inr r, log) \<Rightarrow> (Inr r, log))"
  using assms by (simp add: process_chat_message_def chat_try_def)

lemma provider_error_named:
  "(lookup_fails w (length log) (FromSender x) \<longrightarrow> fst (find_email_by_sender w log x) = None)
   \<and> (lookup_fails w (length log) (SubjectHas x) \<longrightarrow> fst (find_email_by_subject w log x) = None)
   \<and> (session_valid w token \<and> routed_branch w request = ReplyBranch
       \<and> parameters_of w request = JObj p
       \<and> reply_context_target (dict_get p ''email_index'' (JStr []))
            (dict_get p ''sender_email'' (JStr [])) (context_of request) = Inr t0
       \<and> \<not> found t0 \<and> truthy (dict_get p ''sender_email'' (JStr []))
       \<and> lookup_fails w (length (first_log w request))
            (FromSender (dict_get p ''sender_email'' (JStr [])))
       \<longrightarrow> fst (process_chat_message w token request) =
             Inr \<lparr> intent = intent_of w request, confidence = confidence_of w request,
                   message = reply_miss, action = Some ''error'', data = JNull \<rparr>)
   \<and> (session_valid w token \<and> routed_branch w request = DeleteBranch
       \<and> parameters_of w request = JObj p
       \<and> delete_context_target (dict_get p ''email_index'' (JStr []))
            (dict_get p ''sender_email'' (JStr [])) (dict_get p ''subject_keyword'' (JStr []))
            (context_of request) = Inr t0
       \<and> \<not> found t0
       \<and> (if truthy (dict_get p ''sender_email'' (JStr []))
           then lookup_fails w (length (first_log w request))
                  (FromSender (dict_get p ''sender_email'' (JStr [])))
           else truthy (dict_get p ''subject_keyword'' (JStr []))
                \<and> lookup_fails w (length (first_log w request))
                     (SubjectHas (dict_get p ''subject_keyword'' (JStr []))))
       \<longrightarrow> fst (process_chat_message w token request) =
             Inr \<lparr> intent = intent_of w request, confidence = confidence_of w request,
                   message = delete_miss, action = Some ''error'', data = JNull \<rparr>)"
proof (intro conjI impI)
  show "lookup_fails w (length log) (FromSender x) \<Longrightarrow> fst (find_email_by_sender w log x) = None"
    by (rule find_by_sender_fails)
  show "lookup_fails w (length log) (SubjectHas x) \<Longrightarrow> fst (find_email_by_subject w log x) = None"
    by (rule find_by_subject_fails)
next
  let ?s = "dict_get p ''sender_email'' (JStr [])"
  let ?log = "first_log w request"
  assume h: "session_valid w token \<and> routed_branch w request = ReplyBranch
       \<and> parameters_of w request = JObj p
       \<and> reply_context_target (dict_get p ''email_index'' (JStr [])) ?s (context_of request) = Inr t0
       \<and> \<not> found t0 \<and> truthy ?s
       \<and> lookup_fails w (length ?log) (FromSender ?s)"
  then have n: "fst (find_email_by_sender w ?log ?s) = None"
    by (intro find_by_sender_fails) simp
  have "reply_target w ?log (dict_get p ''email_index'' (JStr [])) ?s (context_of request)
          = (Inr None, snd (find_email_by_sender w ?log ?s))"
    using h n by (simp add: reply_target_unfold)
  then have "reply_branch w ?log (initial_response w request) (JObj p) (context_of request) =
           (Inr ((initial_response w request) \<lparr> message := reply_miss, action := Some ''error'' \<rparr>),
            snd (find_email_by_sender w ?log ?s))"
    by (rule reply_branch_miss)
  with h show "fst (process_chat_message w token request) =
             Inr \<lparr> intent = intent_of w request, confidence = confidence_of w request,
                   message = reply_miss, action = Some ''error'', data = JNull \<rparr>"
    by (simp add: process_reply initial_response_def)
next
  let ?s = "dict_get p ''sender_email'' (JStr [])"
  let ?k = "dict_get p ''subject_keyword'' (JStr [])"
  let ?log = "first_log w request"
  assume h: "session_valid w token \<and> routed_branch w request = DeleteBranch
       \<and> parameters_of w request = JObj p
       \<and> delete_context_target (dict_get p ''email_index'' (JStr [])) ?s ?k
            (context_of request) = Inr t0
       \<and> \<not> found t0
       \<and> (if truthy ?s then lookup_fails w (length ?log) (FromSender ?s)
           else truthy ?k \<and> lookup_fails w (length ?log) (SubjectHas ?k))"
  have "\<exists>log1. delete_target w ?log (dict_get p ''email_index'' (JStr [])) ?s ?k (context_of request)
          = (Inr None, log1)"
  proof (cases "truthy ?s")
    case True
    with h have "fst (find_email_by_sender w ?log ?s) = None"
      by (intro find_by_sender_fails) simp
    with h True show ?thesis by (simp add: delete_target_unfold)
  next
    case False
    with h have "fst (find_email_by_subject w ?log ?k) = None"
      by (intro find_by_subject_fails) simp
    with h False show ?thesis by (simp add: delete_target_unfold)
  qed
  then obtain log1 where
    "delete_target w ?log (dict_get p ''email_index'' (JStr [])) ?s ?k (context_of request)
          = (Inr None, log1)" by blast
  then have "delete_branch w ?log (initial_response w request) (JObj p) (context_of request) =
           (Inr ((initial_response w request) \<lparr> message := delete_miss, action := Some ''error'' \<rparr>),
            log1)"
    by (rule delete_branch_miss)
  with h show "fst (process_chat_message w token request) =
             Inr \<lparr> intent = intent_of w request, confidence = confidence_of w request,
                   message = delete_miss, action = Some ''error'', data = JNull \<rparr>"
    by (simp add: process_delete initial_response_def)
qed

text \<open>
  Claim C10. A lookup that the provider answers with an \<^verbatim>\<open>HttpError\<close> returns
  \<^verbatim>\<open>None\<close>, by sender and by subject alike. So for a valid session, when the reply
  branch finds no target in the context, a sender is given and the provider's lookup
  fails, the route answers with the envelope of action \<^verbatim>\<open>error\<close> and the message that
  the email to reply to could not be found, with its advice to fetch the recent emails
  first or to be more specific; and so does the delete branch, whose lookup is by sender
  when a sender is given and by subject otherwise.
\<close>

theorem provider_error_is_miss:
  "(lookup_fails w (length log) (FromSender x) \<longrightarrow> fst (find_email_by_sender w log x) = None)
   \<and> (lookup_fails w (length log) (SubjectHas x) \<longrightarrow> fst (find_email_by_subject w log x) = None)
   \<and> (session_valid w token \<and> routed_branch w request = ReplyBranch
       \<and> parameters_of w request = JObj p
       \<and> reply_context_target (dict_get p ''email_index'' (JStr []))
            (dict_get p ''sender_email'' (JStr [])) (context_of request) = Inr t0
       \<and> \<not> found t0 \<and> truthy (dict_get p ''sender_email'' (JStr []))
       \<and> lookup_fails w (length (first_log w request))
            (FromSender (dict_get p ''sender_email'' (JStr [])))
       \<longrightarrow> fst (process_chat_message w token request) =
             Inr \<lparr> intent = intent_of w request, confidence = confidence_of w request,
                   message = [Lit ''I couldn't find the email you want to reply to. Please try fetching your recent emails first or be more specific about which email to reply to.''],
                   action = Some ''error'', data = JNull \<rparr>)
   \<and> (session_valid w token \<and> routed_branch w request = DeleteBranch
       \<and> parameters_of w request = JObj p
       \<and> delete_context_target (dict_get p ''email_index'' (JStr []))
            (dict_get p ''sender_email'' (JStr [])) (dict_get p ''subject_keyword'' (JStr []))
            (context_of request) = Inr t0
       \<and> \<not> found t0
       \<and> (if truthy (dict_get p ''sender_email'' (JStr []))
           then lookup_fails w (length (first_log w request))
                  (FromSender (dict_get p ''sender_email'' (JStr [])))
           else truthy (dict_get p ''subject_keyword'' (JStr []))
                \<and> lookup_fails w (length (first_log w request))
                     (SubjectHas (dict_get p ''subject_keyword'' (JStr []))))
       \<longrightarrow> fst (process_chat_message w token request) =
             Inr \<lparr> intent = intent_of w request, confidence = confidence_of w request,
                   message = [Lit ''I couldn't find the email you want to delete. Please try fetching your recent emails first or be more specific.''],
                   action = Some ''error'', data = JNull \<rparr>)"
  by (rule provider_error_named [unfolded reply_miss_def delete_miss_def])

lemma failing_facts:
  "session_valid failing_world ''token''"
  "routed_branch failing_world no_context_request = ReplyBranch"
  "parameters_of failing_world no_context_request =
     JObj [(''email_index'', JStr ''1''), (''sender_email'', JStr ''alice'')]"
  "reply_context_target (JStr ''1'') (JStr ''alice'') (context_of no_context_request) = Inr None"
  "\<not> found None" "truthy (JStr ''alice'')"
  "lookup_fails failing_world (length (first_log failing_world no_context_request))
     (FromSender (JStr ''alice''))"
  "intent_of failing_world no_context_request = JStr ''reply''"
  "confidence_of failing_world no_context_request = JStr ''low''"
  by code_simp+

theorem provider_error_is_miss_witness:
  "session_valid failing_world ''token''
   \<and> routed_branch failing_world no_context_request = ReplyBranch
   \<and> lookup_fails failing_world (length (first_log failing_world no_context_request))
        (FromSender (JStr ''alice''))
   \<and> fst (process_chat_message failing_world ''token'' no_context_request) =
        Inr \<lparr> intent = JStr ''reply'', confidence = JStr ''low'',
               message = [Lit ''I couldn't find the email you want to reply to. Please try fetching your recent emails first or be more specific about which email to reply to.''],
               action = Some ''error'', data = JNull \<rparr>"
  using provider_error_is_miss [of failing_world "[]" "JStr ''alice''" "''token''"
          no_context_request "[(''email_index'', JStr ''1''), (''sender_email'', JStr ''alice'')]"
          None]
        failing_facts
  by (simp add: dict_get_def)

section \<open>Summaries in the read branch\<close>

lemma fetch_messages_parsed:
  "fetch_messages w log ids = (es, log') \<Longrightarrow> list_all parsed es"
proof (induction ids arbitrary: log es)
  case Nil
  then show ?case by simp
next
  case (Cons i ids)
  show ?case
  proof (cases "messages_get w (length log) i")
    case HttpFailure
    with Cons.prems have "fetch_messages w (log @ [MailCall (MessagesGet i)]) ids = (es, log')"
      by simp
    then show ?thesis by (rule Cons.IH)
  next
    case (Returned m)
    then obtain es0 where f: "fetch_messages w (log @ [MailCall (MessagesGet i)]) ids = (es0, log')"
      and e: "es = parse_message m # es0"
      using Cons.prems by (auto split: prod.splits)
    from f have "list_all parsed es0" by (rule Cons.IH)
    moreover have "parsed (parse_message m)" unfolding parsed_def by blast
    ultimately show ?thesis using e by simp
  qed
qed

lemma get_recent_emails_parsed:
  "get_recent_emails w log k = (Inr es, log') \<Longrightarrow> list_all parsed es"
  by (auto simp: get_recent_emails_def split: api.splits prod.splits
           dest: fetch_messages_parsed)

lemma summarize_email_parsed:
  assumes "parsed email"
  shows "summarize_email w log email =
           (AList.update ''ai_summary''
              (JStr (summary_text (llm w (length log) (summary_request email)))) email,
            log @ [ModelCall (summary_request email)])"
proof -
  from assms obtain m where m: "email = parse_message m" by (auto simp: parsed_def)
  show ?thesis
    unfolding m
    by (simp add: summarize_email_def parse_message_def dict_item_def dict_get_def
          generate_summary_def slice_2000_def summary_request_def summary_text_def
          split: completion.splits)
qed

lemma summarize_all_parsed:
  "list_all parsed es \<Longrightarrow> summarize_all w log es = (xs, log') \<Longrightarrow>
     length xs = length es
     \<and> (\<forall>i<length es. xs ! i =
           AList.update ''ai_summary''
             (JStr (summary_text (llm w (length log + i) (summary_request (es ! i))))) (es ! i))"
proof (induction es arbitrary: log xs)
  case Nil
  then show ?case by simp
next
  case (Cons e es)
  from Cons.prems(1) have pe: "parsed e" and pes: "list_all parsed es" by simp_all
  let ?x = "AList.update ''ai_summary''
              (JStr (summary_text (llm w (length log) (summary_request e)))) e"
  let ?log1 = "log @ [ModelCall (summary_request e)]"
  have s: "summarize_email w log e = (?x, ?log1)" using pe by (rule summarize_email_parsed)
  then obtain xs0 where r: "summarize_all w ?log1 es = (xs0, log')" and x: "xs = ?x # xs0"
    using Cons.prems(2) by (auto split: prod.splits)
  from Cons.IH [OF pes r] have l: "length xs0 = length es"
    and n: "\<forall>i<length es. xs0 ! i =
           AList.update ''ai_summary''
             (JStr (summary_text (llm w (length ?log1 + i) (summary_request (es ! i))))) (es ! i)"
    by simp_all
  show ?case
  proof (intro conjI allI impI)
    show "length xs = length (e # es)" using x l by simp
  next
    fix i assume "i < length (e # es)"
    then show "xs ! i = AList.update ''ai_summary''
             (JStr (summary_text (llm w (length log + i) (summary_request ((e # es) ! i)))))
             ((e # es) ! i)"
      using x n by (cases i) simp_all
  qed
qed

lemma process_read:
  assumes "session_valid w token" "routed_branch w request = ReadBranch"
  shows "process_chat_message w token request =
     (case read_branch w (first_log w request) (initial_response w request)
             (user_message_of request) of
        (Inl e, log) \<Rightarrow> (Inl (HTTPException 500 (Some e)), log)
      | (Inr r, log) \<Rightarrow> (Inr r, log))"
  using assms by (simp add: process_chat_message_def chat_try_def)

text \<open>
  Claim C7. For a valid session and a message routed to the read branch, whenever the
  batch of emails has been fetched, the answer is the envelope with action
  \<^verbatim>\<open>display_emails\<close> that holds every email of the batch, in order, each with a summary
  added: the fixed placeholder where the model's call for that email raised, and the
  model's stripped text where it did not. The call for the email at position \<open>i\<close> is the
  one that follows the fetch by \<open>i\<close> calls, so that a failure for one email leaves the
  summaries of the others as they are.
\<close>

theorem summary_failure_isolated:
  assumes "session_valid w token" and "routed_branch w request = ReadBranch"
    and "get_recent_emails w (first_log w request) (read_max_results (user_message_of request))
           = (Inr fetched, log1)"
  shows "\<exists>emails. fst (process_chat_message w token request) =
           Inr \<lparr> intent = intent_of w request, confidence = confidence_of w request,
                  message = [Lit ''I found '', Number (length fetched),
                             Lit '' recent emails. Here they are:''],
                  action = Some ''display_emails'',
                  data = JObj [(''emails'', JArr (map JObj emails))] \<rparr>
         \<and> length emails = length fetched
         \<and> (\<forall>i<length fetched. emails ! i =
               AList.update ''ai_summary''
                 (JStr (case llm w (length log1 + i) (summary_request (fetched ! i)) of
                          Raised e \<Rightarrow> ''Unable to generate summary at this time.''
                        | Content t \<Rightarrow> content_text t))
                 (fetched ! i))"
proof -
  obtain emails log2 where s: "summarize_all w log1 fetched = (emails, log2)"
    by (cases "summarize_all w log1 fetched")
  from assms(3) have p: "list_all parsed fetched" by (rule get_recent_emails_parsed)
  from summarize_all_parsed [OF p s] have l: "length emails = length fetched"
    and n: "\<forall>i<length fetched. emails ! i =
               AList.update ''ai_summary''
                 (JStr (summary_text (llm w (length log1 + i) (summary_request (fetched ! i)))))
                 (fetched ! i)"
    by simp_all
  have "fst (process_chat_message w token request) =
           Inr \<lparr> intent = intent_of w request, confidence = confidence_of w request,
                  message = [Lit ''I found '', Number (length fetched),
                             Lit '' recent emails. Here they are:''],
                  action = Some ''display_emails'',
                  data = JObj [(''emails'', JArr (map JObj emails))] \<rparr>"
    using assms s l by (simp add: process_read read_branch_def initial_response_def)
  with l n show ?thesis unfolding summary_text_def by blast
qed

lemma read_world_facts:
  "session_valid read_world ''token''"
  "routed_branch read_world show_request = ReadBranch"
  "get_recent_emails read_world (first_log read_world show_request)
     (read_max_results (user_message_of show_request))
   = (Inr [parse_message alice_message, parse_message bob_message, parse_message alice_message],
      [ModelCall (CommandPrompt ''Show me my emails'' None),
       MailCall (MessagesList 5 InInbox), MailCall (MessagesGet ''m1''),
       MailCall (MessagesGet ''m2''), MailCall (MessagesGet ''m1'')])"
  by code_simp+

lemma read_world_result:
  "fst (process_chat_message read_world ''token'' show_request) =
     Inr \<lparr> intent = JStr ''read'', confidence = JStr ''high'',
            message = [Lit ''I found '', Number 3, Lit '' recent emails. Here they are:''],
            action = Some ''display_emails'',
            data = JObj [(''emails'', JArr
              [JObj (parse_message alice_message @ [(''ai_summary'', JStr ''A short note.'')]),
               JObj (parse_message bob_message
                       @ [(''ai_summary'', JStr ''Unable to generate summary at this time.'')]),
               JObj (parse_message alice_message @ [(''ai_summary'', JStr ''A short note.'')])])] \<rparr>"
  by code_simp

theorem summary_failure_isolated_witness:
  "session_valid read_world ''token''
   \<and> routed_branch read_world show_request = ReadBranch
   \<and> fst (get_recent_emails read_world (first_log read_world show_request)
             (read_max_results (user_message_of show_request)))
       = Inr [parse_message alice_message, parse_message bob_message, parse_message alice_message]
   \<and> (\<exists>emails. length emails = 3
         \<and> fst (process_chat_message read_world ''token'' show_request) =
             Inr \<lparr> intent = intent_of read_world show_request,
                    confidence = confidence_of read_world show_request,
                    message = [Lit ''I found '', Number 3,
                               Lit '' recent emails. Here they are:''],
                    action = Some ''display_emails'',
                    data = JObj [(''emails'', JArr (map JObj emails))] \<rparr>)
   \<and> fst (process_chat_message read_world ''token'' show_request) =
     Inr \<lparr> intent = JStr ''read'', confidence = JStr ''high'',
            message = [Lit ''I found '', Number 3, Lit '' recent emails. Here they are:''],
            action = Some ''display_emails'',
            data = JObj [(''emails'', JArr
              [JObj (parse_message alice_message @ [(''ai_summary'', JStr ''A short note.'')]),
               JObj (parse_message bob_message
                       @ [(''ai_summary'', JStr ''Unable to generate summary at this time.'')]),
               JObj (parse_message alice_message @ [(''ai_summary'', JStr ''A short note.'')])])] \<rparr>"
proof -
  obtain emails where
    e: "fst (process_chat_message read_world ''token'' show_request) =
           Inr \<lparr> intent = intent_of read_world show_request,
                  confidence = confidence_of read_world show_request,
                  message = [Lit ''I found '',
                             Number (length [parse_message alice_message,
                                             parse_message bob_message,
                                             parse_message alice_message]),
                             Lit '' recent emails. Here they are:''],
                  action = Some ''display_emails'',
                  data = JObj [(''emails'', JArr (map JObj emails))] \<rparr>"
    and l: "length emails = length [parse_message alice_message, parse_message bob_message,
                                     parse_message alice_message]"
    using summary_failure_isolated [OF read_world_facts] by blast
  have "\<exists>emails. length emails = 3
         \<and> fst (process_chat_message read_world ''token'' show_request) =
             Inr \<lparr> intent = intent_of read_world show_request,
                    confidence = confidence_of read_world show_request,
                    message = [Lit ''I found '', Number 3,
                               Lit '' recent emails. Here they are:''],
                    action = Some ''display_emails'',
                    data = JObj [(''emails'', JArr (map JObj emails))] \<rparr>"
    using e l by (intro exI [of _ emails]) simp
  then show ?thesis
    using read_world_facts read_world_result by simp
qed

section \<open>The digest\<close>














end
